theory Spec2Isabelle
  imports Main
begin

section \<open>Python values, dictionaries and exceptions\<close>

text \<open>
  The pipeline of \<^verbatim>\<open>adopt/agent_backup.py\<close> and \<^verbatim>\<open>adopt/tools.py\<close> passes plain
  dictionaries between its stages. A dictionary is an association list from key to value
  (the first pair of a key is the entry); the values are the Python values the code puts
  there: \<^verbatim>\<open>None\<close>, booleans, strings, the exported bytes, and the dictionary of a
  submission, whose four fields are strings (\<^verbatim>\<open>name: str\<close>, ...).
\<close>

datatype pyval =
    PNone
  | PBool bool
  | PStr string
  | PBytes string
  | PStrDict "(string \<times> string) list"

type_synonym pydict = "(string \<times> pyval) list"

text \<open>
  Exceptions of class \<^verbatim>\<open>Exception\<close>. The \<^verbatim>\<open>TypeError\<close>s of the interpreter are kept by
  cause; \<open>ExternalError\<close> is whatever a library or a remote service raises.
\<close>

datatype field_error = Missing | MinLength | ValueError string

datatype exn =
    KeyError string
  | MissingArgument string string
  | NotAMapping
  | NotSubscriptable
  | ValidationError "(string \<times> field_error) list"
  | ExternalError string

definition bindE :: "'e + 'a \<Rightarrow> ('a \<Rightarrow> 'e + 'b) \<Rightarrow> 'e + 'b" where
  "bindE r f = (case r of Inl e \<Rightarrow> Inl e | Inr v \<Rightarrow> f v)"

text \<open>\<^verbatim>\<open>d[k]\<close>, \<^verbatim>\<open>d.get(k)\<close> and \<^verbatim>\<open>d.get(k, default)\<close>.\<close>

definition getitem :: "pydict \<Rightarrow> string \<Rightarrow> exn + pyval" where
  "getitem d k = (case map_of d k of None \<Rightarrow> Inl (KeyError k) | Some v \<Rightarrow> Inr v)"

definition get_default :: "pydict \<Rightarrow> string \<Rightarrow> pyval \<Rightarrow> pyval" where
  "get_default d k dflt = (case map_of d k of None \<Rightarrow> dflt | Some v \<Rightarrow> v)"

definition get :: "pydict \<Rightarrow> string \<Rightarrow> pyval" where
  "get d k = get_default d k PNone"

text \<open>\<^verbatim>\<open>v[k]\<close> on a value read out of a dictionary: only a dictionary has string keys.\<close>

definition subscript :: "pyval \<Rightarrow> string \<Rightarrow> exn + pyval" where
  "subscript v k =
     (case v of
        PStrDict d \<Rightarrow> (case map_of d k of None \<Rightarrow> Inl (KeyError k) | Some s \<Rightarrow> Inr (PStr s))
      | _ \<Rightarrow> Inl NotSubscriptable)"

text \<open>Truth value of a Python value, as \<^verbatim>\<open>if v\<close> and \<^verbatim>\<open>all([...])\<close> test it.\<close>

fun truthy :: "pyval \<Rightarrow> bool" where
  "truthy PNone = False"
| "truthy (PBool b) = b"
| "truthy (PStr s) = (s \<noteq> [])"
| "truthy (PBytes b) = (b \<noteq> [])"
| "truthy (PStrDict d) = (d \<noteq> [])"

section \<open>The submission schema (tools.py, UserSubmission)\<close>

text \<open>
  \<^verbatim>\<open>str.strip()\<close> removes leading and trailing whitespace. A character of a string is
  a code point below 256 here (\<open>CHR 0xA0\<close> is U+00A0), and \<open>py_isspace\<close> is Python's
  \<^verbatim>\<open>str.isspace\<close> on these code points: tab, line feed, vertical tab, form feed,
  carriage return, the four separators U+001C to U+001F, the space, the next-line
  character U+0085 and the no-break space U+00A0. The whitespace characters of Unicode
  from U+1680 on are not characters of this type.
\<close>

definition py_isspace :: "char \<Rightarrow> bool" where
  "py_isspace c = (c \<in> set [CHR 0x09, CHR 0x0A, CHR 0x0B, CHR 0x0C, CHR 0x0D,
                              CHR 0x1C, CHR 0x1D, CHR 0x1E, CHR 0x1F, CHR 0x20,
                              CHR 0x85, CHR 0xA0])"

definition strip :: "string \<Rightarrow> string" where
  "strip v = rev (dropWhile py_isspace (rev (dropWhile py_isspace v)))"

record UserSubmission =
  name :: string
  email :: string
  address :: string
  recipient_email :: string

text \<open>
  \<^verbatim>\<open>@validator('name', 'address')\<close>:
  \<^verbatim>\<open>if not v or not v.strip(): raise ValueError("Field cannot be empty")\<close>,
  \<^verbatim>\<open>return v.strip()\<close>.
\<close>

definition validate_required_fields :: "string \<Rightarrow> field_error + string" where
  "validate_required_fields v =
     (if v = [] \<or> strip v = [] then Inl (ValueError ''Field cannot be empty'')
      else Inr (strip v))"

text \<open>
  \<^verbatim>\<open>@validator('email', 'recipient_email')\<close>. The library function
  \<^verbatim>\<open>email_validator.validate_email\<close> is not part of the repository: it is the
  parameter \<open>ev\<close>, which answers \<open>None\<close> where the library raises
  \<^verbatim>\<open>EmailNotValidError\<close> and the normalised address (\<^verbatim>\<open>valid.email\<close>) otherwise.
\<close>

definition validate_email :: "(string \<Rightarrow> string option) \<Rightarrow> string \<Rightarrow> field_error + string" where
  "validate_email ev v =
     (case ev v of None \<Rightarrow> Inl (ValueError ''Invalid email format'') | Some n \<Rightarrow> Inr n)"

text \<open>\<^verbatim>\<open>Field(..., min_length=1)\<close>: a required field, and the length constraint.\<close>

definition required :: "(string \<times> string) list \<Rightarrow> string \<Rightarrow> field_error + string" where
  "required d k = (case map_of d k of None \<Rightarrow> Inl Missing | Some v \<Rightarrow> Inr v)"

definition min_length_1 :: "string \<Rightarrow> field_error + string" where
  "min_length_1 v = (if length v < 1 then Inl MinLength else Inr v)"

text \<open>
  \<^verbatim>\<open>UserSubmission(**d)\<close>. Every field is checked, in the order of the class: a
  missing field, then the constraint of the field, then the validator of the class. The
  errors of all fields are raised together as one \<^verbatim>\<open>ValidationError\<close>; keys that are
  not fields are ignored.
\<close>

definition field_errors :: "(string \<times> (field_error + string)) list \<Rightarrow> (string \<times> field_error) list" where
  "field_errors rs = concat (map (\<lambda>(k, r). case r of Inl e \<Rightarrow> [(k, e)] | Inr _ \<Rightarrow> []) rs)"

definition UserSubmission_init ::
  "(string \<Rightarrow> string option) \<Rightarrow> (string \<times> string) list \<Rightarrow> exn + UserSubmission" where
  "UserSubmission_init ev d =
     (let rn = bindE (bindE (required d ''name'') min_length_1) validate_required_fields;
          re = bindE (required d ''email'') (validate_email ev);
          ra = bindE (bindE (required d ''address'') min_length_1) validate_required_fields;
          rr = bindE (required d ''recipient_email'') (validate_email ev)
      in case (rn, re, ra, rr) of
           (Inr n, Inr e, Inr a, Inr r) \<Rightarrow>
             Inr \<lparr>name = n, email = e, address = a, recipient_email = r\<rparr>
         | _ \<Rightarrow>
             Inl (ValidationError (field_errors
               [(''name'', rn), (''email'', re), (''address'', ra), (''recipient_email'', rr)])))"

text \<open>\<^verbatim>\<open>submission.dict()\<close>.\<close>

definition dict_of :: "UserSubmission \<Rightarrow> (string \<times> string) list" where
  "dict_of s = [(''name'', name s), (''email'', email s), (''address'', address s),
                (''recipient_email'', recipient_email s)]"

text \<open>The raw record of the four inputs, as the callers pass them.\<close>

definition raw_record :: "string \<Rightarrow> string \<Rightarrow> string \<Rightarrow> string \<Rightarrow> (string \<times> string) list" where
  "raw_record n e a r = [(''name'', n), (''email'', e), (''address'', a), (''recipient_email'', r)]"

definition validate ::
  "(string \<Rightarrow> string option) \<Rightarrow> string \<Rightarrow> string \<Rightarrow> string \<Rightarrow> string \<Rightarrow> exn + UserSubmission" where
  "validate ev n e a r = UserSubmission_init ev (raw_record n e a r)"

section \<open>The outside world\<close>

text \<open>
  What the code reads and changes outside its own variables: the credentials cached in
  the \<^verbatim>\<open>GoogleAPIManager\<close> (\<^verbatim>\<open>self._creds\<close>), the text of the token file at
  \<^verbatim>\<open>self.token_path\<close> (\<open>None\<close> when there is no file), the clock, and the journal of
  the calls that leave the process and of the writes of the token file, in the order they
  are made. \<open>CredsRefresh\<close> is one request of the refresh exchange sent to the token
  endpoint; the library sends it within \<^verbatim>\<open>creds.refresh(Request())\<close>, and sends it
  again when the endpoint answers with a transient error. \<open>TokenFileWrite t\<close> is one \<^verbatim>\<open>open(self.token_path, 'w')\<close> with the
  write of \<open>t\<close>, whether it completes or raises. The journal also records each node of
  the workflow graph as the graph enters it. Console output and log lines are not
  modelled.
\<close>

record credentials =
  token :: "string option"
  refresh_token :: "string option"
  expiry :: "int option"

datatype node =
    Validate_input | Create_document | Export_docx | Send_email | Handle_error | Finalize | End

datatype event =
    CredsRefresh
  | LocalServerFlow
  | ConsoleFlow
  | TokenFileWrite string
  | Build string string
  | DocumentsCreate string
  | DocumentsBatchUpdate pyval string
  | FilesUpdate pyval string
  | FilesExportMedia pyval string
  | MessagesSend string
  | NodeEntered node

record world =
  creds_cache :: "credentials option"
  token_file :: "string option"
  clock :: int
  events :: "event list"

text \<open>
  The collaborators that are not code of the repository, as parameters. A remote call
  answers from the journal so far and its arguments, with a value or with the exception
  it raises. Of the class \<^verbatim>\<open>Credentials\<close> of the library: \<open>creds_expired\<close> is the
  property \<^verbatim>\<open>creds.expired\<close> at a time, \<open>from_authorized_user_file\<close> is what the
  library makes of the text of a token file read at a time (credentials, or the exception
  it raises), \<open>to_json\<close> is \<^verbatim>\<open>creds.to_json()\<close>, \<open>refresh\<close> is one call of
  \<^verbatim>\<open>creds.refresh(Request())\<close>: the number of requests the library sent to the token
  endpoint in that call, and the refreshed credentials or the exception the call raises.
  \<open>write_file\<close> is the file system at
  \<^verbatim>\<open>open(path, 'w')\<close> and \<^verbatim>\<open>write\<close>: from the journal, the file as it is and the new
  text, it answers that the text was written, or the exception raised together with what
  is left of the file.
\<close>

record ext =
  email_validator :: "string \<Rightarrow> string option"
  str_exn :: "exn \<Rightarrow> string"
  repr :: "pyval \<Rightarrow> string"
  isoformat :: "int \<Rightarrow> string"
  creds_expired :: "credentials \<Rightarrow> int \<Rightarrow> bool"
  from_authorized_user_file :: "string \<Rightarrow> int \<Rightarrow> exn + credentials"
  to_json :: "credentials \<Rightarrow> string"
  write_file :: "event list \<Rightarrow> string option \<Rightarrow> string \<Rightarrow> (exn \<times> string option) + unit"
  refresh :: "event list \<Rightarrow> credentials \<Rightarrow> nat \<times> (exn + credentials)"
  run_local_server :: "event list \<Rightarrow> exn + credentials"
  run_console :: "event list \<Rightarrow> exn + credentials"
  build :: "event list \<Rightarrow> string \<Rightarrow> string \<Rightarrow> credentials \<Rightarrow> exn + unit"
  documents_create :: "event list \<Rightarrow> string \<Rightarrow> exn + (string \<times> string) list"
  documents_batchUpdate :: "event list \<Rightarrow> pyval \<Rightarrow> string \<Rightarrow> exn + unit"
  files_update :: "event list \<Rightarrow> pyval \<Rightarrow> string \<Rightarrow> exn + unit"
  files_export_media :: "event list \<Rightarrow> pyval \<Rightarrow> string \<Rightarrow> exn + string"
  mime_message :: "string \<Rightarrow> string \<Rightarrow> string \<Rightarrow> string \<Rightarrow> string \<Rightarrow> exn + string"
  messages_send :: "event list \<Rightarrow> string \<Rightarrow> exn + (string \<times> string) list"

text \<open>A computation on the world that returns a value or raises.\<close>

type_synonym 'a io = "world \<Rightarrow> (exn + 'a) \<times> world"

definition returnM :: "'a \<Rightarrow> 'a io" where
  "returnM v w = (Inr v, w)"

definition raiseM :: "exn \<Rightarrow> 'a io" where
  "raiseM e w = (Inl e, w)"

definition liftE :: "exn + 'a \<Rightarrow> 'a io" where
  "liftE r w = (r, w)"

definition bindM :: "'a io \<Rightarrow> ('a \<Rightarrow> 'b io) \<Rightarrow> 'b io" where
  "bindM m f w = (case m w of (Inl e, w') \<Rightarrow> (Inl e, w') | (Inr v, w') \<Rightarrow> f v w')"

text \<open>\<^verbatim>\<open>try: m except Exception as e: h e\<close>.\<close>

definition catchM :: "'a io \<Rightarrow> (exn \<Rightarrow> 'a io) \<Rightarrow> 'a io" where
  "catchM m h w = (case m w of (Inl e, w') \<Rightarrow> h e w' | (Inr v, w') \<Rightarrow> (Inr v, w'))"

definition extcall :: "event \<Rightarrow> (event list \<Rightarrow> exn + 'a) \<Rightarrow> 'a io" where
  "extcall ev answer w = (answer (events w), w\<lparr>events := events w @ [ev]\<rparr>)"

text \<open>\<^verbatim>\<open>str(v)\<close> inside an f-string.\<close>

definition py_str :: "ext \<Rightarrow> pyval \<Rightarrow> string" where
  "py_str x v =
     (case v of
        PNone \<Rightarrow> ''None''
      | PBool b \<Rightarrow> (if b then ''True'' else ''False'')
      | PStr s \<Rightarrow> s
      | _ \<Rightarrow> repr x v)"

definition of_opt :: "string option \<Rightarrow> pyval" where
  "of_opt v = (case v of None \<Rightarrow> PNone | Some s \<Rightarrow> PStr s)"

section \<open>The credential manager (tools.py, GoogleAPIManager)\<close>

text \<open>
  \<^verbatim>\<open>creds.valid\<close> of the library: a token that is there and not expired. When the
  library takes credentials for expired (how long before the expiry, and what it does
  without one) is the parameter \<open>creds_expired\<close>.
\<close>

definition valid :: "ext \<Rightarrow> credentials \<Rightarrow> int \<Rightarrow> bool" where
  "valid x c now = (token c \<noteq> None \<and> \<not> creds_expired x c now)"

definition has_refresh_token :: "credentials \<Rightarrow> bool" where
  "has_refresh_token c = (case refresh_token c of None \<Rightarrow> False | Some t \<Rightarrow> t \<noteq> [])"

text \<open>
  \<^verbatim>\<open>if os.path.exists(self.token_path): creds = Credentials.from_authorized_user_file(...)\<close>.
\<close>

definition load_token_file :: "ext \<Rightarrow> credentials option io" where
  "load_token_file x w =
     (case token_file w of
        None \<Rightarrow> (Inr None, w)
      | Some t \<Rightarrow>
          (case from_authorized_user_file x t (clock w) of
             Inl e \<Rightarrow> (Inl e, w)
           | Inr c \<Rightarrow> (Inr (Some c), w)))"

text \<open>
  The interactive flow: the local server on port 8080 and, when that raises, the console
  flow; what the console flow raises is raised again by the outer handler.
\<close>

definition oauth_flow :: "ext \<Rightarrow> credentials io" where
  "oauth_flow x =
     catchM (extcall LocalServerFlow (run_local_server x))
            (\<lambda>local_server_error. extcall ConsoleFlow (run_console x))"

text \<open>
  \<^verbatim>\<open>with open(self.token_path, 'w') as token: token.write(creds.to_json())\<close>, which is
  not in a \<^verbatim>\<open>try\<close>: what the file system raises leaves \<^verbatim>\<open>get_credentials\<close>.
\<close>

definition save_credentials :: "ext \<Rightarrow> credentials \<Rightarrow> unit io" where
  "save_credentials x c w =
     (case write_file x (events w) (token_file w) (to_json x c) of
        Inr _ \<Rightarrow>
          (Inr (), w\<lparr>token_file := Some (to_json x c),
                      events := events w @ [TokenFileWrite (to_json x c)]\<rparr>)
      | Inl (e, left) \<Rightarrow>
          (Inl e, w\<lparr>token_file := left,
                     events := events w @ [TokenFileWrite (to_json x c)]\<rparr>))"

text \<open>\<^verbatim>\<open>creds.refresh(Request())\<close>: one call, with the requests the library sends in it.\<close>

definition refresh_credentials :: "ext \<Rightarrow> credentials \<Rightarrow> credentials io" where
  "refresh_credentials x c w =
     (case refresh x (events w) c of
        (requests, r) \<Rightarrow> (r, w\<lparr>events := events w @ replicate requests CredsRefresh\<rparr>))"

text \<open>The branch \<^verbatim>\<open>if not creds or not creds.valid\<close>: refresh or authorise, then save.\<close>

definition renew :: "ext \<Rightarrow> credentials option \<Rightarrow> int \<Rightarrow> credentials io" where
  "renew x creds now =
     bindM
       (case creds of
          Some c \<Rightarrow>
            if creds_expired x c now \<and> has_refresh_token c
            then refresh_credentials x c
            else oauth_flow x
        | None \<Rightarrow> oauth_flow x)
       (\<lambda>c'. bindM (save_credentials x c') (\<lambda>_. returnM c'))"

definition set_cache :: "credentials \<Rightarrow> unit io" where
  "set_cache c w = (Inr (), w\<lparr>creds_cache := Some c\<rparr>)"

text \<open>
  \<^verbatim>\<open>get_credentials\<close> past its first line: load the token file, renew what is not
  valid, and cache the result (\<^verbatim>\<open>self._creds = creds\<close>).
\<close>

definition acquire :: "ext \<Rightarrow> int \<Rightarrow> credentials io" where
  "acquire x now =
     bindM
       (bindM (load_token_file x) (\<lambda>creds.
          case creds of
            Some c \<Rightarrow> if valid x c now then returnM c else renew x creds now
          | None \<Rightarrow> renew x creds now))
       (\<lambda>creds. bindM (set_cache creds) (\<lambda>_. returnM creds))"

text \<open>\<^verbatim>\<open>if self._creds and self._creds.valid: return self._creds\<close>, else the rest.\<close>

definition get_credentials :: "ext \<Rightarrow> credentials io" where
  "get_credentials x w =
     (case creds_cache w of
        Some c \<Rightarrow> if valid x c (clock w) then (Inr c, w) else acquire x (clock w) w
      | None \<Rightarrow> acquire x (clock w) w)"

text \<open>\<^verbatim>\<open>get_service\<close>: the credentials, then \<^verbatim>\<open>build(service_name, version, credentials=creds)\<close>.\<close>

definition get_service :: "ext \<Rightarrow> string \<Rightarrow> string \<Rightarrow> unit io" where
  "get_service x service_name version =
     bindM (get_credentials x)
       (\<lambda>creds. extcall (Build service_name version) (\<lambda>h. build x h service_name version creds))"

section \<open>The three stage operations (tools.py)\<close>

text \<open>
  \<^verbatim>\<open>UserSubmission(**submission_data)\<close> on a value read out of the state: the \<^verbatim>\<open>**\<close>
  needs a dictionary.
\<close>

definition UserSubmission_kwargs :: "ext \<Rightarrow> pyval \<Rightarrow> exn + UserSubmission" where
  "UserSubmission_kwargs x v =
     (case v of
        PStrDict d \<Rightarrow> UserSubmission_init (email_validator x) d
      | _ \<Rightarrow> Inl NotAMapping)"

definition timestamp_now :: "ext \<Rightarrow> string io" where
  "timestamp_now x w = (Inr (isoformat x (clock w)), w)"

definition doc_content :: "UserSubmission \<Rightarrow> string" where
  "doc_content submission =
     ''Name: '' @ name submission @ [CHR 0x0A, CHR 0x0A] @
     ''Email: '' @ email submission @ [CHR 0x0A, CHR 0x0A] @
     ''Address: '' @ address submission"

text \<open>
  What \<^verbatim>\<open>CreateGoogleDocTool._run\<close> does with a submission once it has one: title,
  document, text, folder, and the dictionary of the success.
\<close>

definition create_doc_body :: "ext \<Rightarrow> string option \<Rightarrow> UserSubmission \<Rightarrow> pydict io" where
  "create_doc_body x drive_folder_id submission =
     bindM (timestamp_now x) (\<lambda>timestamp.
     let doc_title = ''Submission - '' @ name submission @ '' - '' @ timestamp in
     bindM (get_service x ''docs'' ''v1'') (\<lambda>docs_service.
     bindM (extcall (DocumentsCreate doc_title) (\<lambda>h. documents_create x h doc_title)) (\<lambda>doc.
     let doc_id = of_opt (map_of doc ''documentId'');
         content = doc_content submission in
     bindM (extcall (DocumentsBatchUpdate doc_id content)
              (\<lambda>h. documents_batchUpdate x h doc_id content)) (\<lambda>_.
     bindM (case drive_folder_id of
              None \<Rightarrow> returnM ()
            | Some folder \<Rightarrow>
                if folder = [] then returnM ()
                else bindM (get_service x ''drive'' ''v3'') (\<lambda>drive_service.
                       extcall (FilesUpdate doc_id folder) (\<lambda>h. files_update x h doc_id folder)))
       (\<lambda>_.
     returnM [(''success'', PBool True),
              (''document_id'', doc_id),
              (''document_url'', PStr (''https://docs.google.com/document/d/'' @ py_str x doc_id)),
              (''title'', PStr doc_title)])))))"

text \<open>\<^verbatim>\<open>except Exception as e: return {'success': False, 'error': str(e)}\<close>.\<close>

definition failure :: "ext \<Rightarrow> exn \<Rightarrow> pydict" where
  "failure x e = [(''success'', PBool False), (''error'', PStr (str_exn x e))]"

definition CreateGoogleDocTool_run :: "ext \<Rightarrow> string option \<Rightarrow> pyval \<Rightarrow> pydict io" where
  "CreateGoogleDocTool_run x drive_folder_id submission_data =
     catchM
       (bindM (liftE (UserSubmission_kwargs x submission_data))
          (\<lambda>submission. create_doc_body x drive_folder_id submission))
       (\<lambda>e. returnM (failure x e))"

definition export_mime_type :: string where
  "export_mime_type = ''application/vnd.openxmlformats-officedocument.wordprocessingml.document''"

definition ExportDocxTool_run :: "ext \<Rightarrow> pyval \<Rightarrow> pydict io" where
  "ExportDocxTool_run x document_id =
     catchM
       (bindM (get_service x ''drive'' ''v3'') (\<lambda>drive_service.
        bindM (extcall (FilesExportMedia document_id export_mime_type)
                 (\<lambda>h. files_export_media x h document_id export_mime_type)) (\<lambda>docx_content.
        returnM [(''success'', PBool True),
                 (''docx_content'', PBytes docx_content),
                 (''mime_type'', PStr export_mime_type)])))
       (\<lambda>e. returnM (failure x e))"

definition email_body_text :: "string \<Rightarrow> string \<Rightarrow> string \<Rightarrow> string" where
  "email_body_text submission_name document_title document_url =
     ''New submission received from '' @ submission_name @ '':'' @ [CHR 0x0A, CHR 0x0A] @
     ''Document: '' @ document_title @ [CHR 0x0A] @
     ''View online: '' @ document_url @ [CHR 0x0A, CHR 0x0A] @
     ''Please find the submission details in the attached DOCX file.'' @ [CHR 0x0A]"

text \<open>
  \<^verbatim>\<open>SendEmailTool._run\<close>, with the five arguments of its signature. Building the MIME
  message and encoding it (\<^verbatim>\<open>email.mime\<close>, \<^verbatim>\<open>base64\<close>) is the parameter
  \<open>mime_message\<close> of recipient, subject, body, attachment and file name.
\<close>

definition SendEmailTool_run ::
  "ext \<Rightarrow> string \<Rightarrow> string \<Rightarrow> string \<Rightarrow> string \<Rightarrow> string \<Rightarrow> pydict io" where
  "SendEmailTool_run x docx_content document_title document_url submission_name recipient =
     catchM
       (bindM (get_service x ''gmail'' ''v1'') (\<lambda>gmail_service.
        bindM (liftE (mime_message x recipient (''New Submission: '' @ submission_name)
                        (email_body_text submission_name document_title document_url)
                        docx_content (document_title @ ''.docx''))) (\<lambda>raw_message.
        bindM (extcall (MessagesSend raw_message) (\<lambda>h. messages_send x h raw_message))
          (\<lambda>send_message.
        bindM (liftE (case map_of send_message ''id'' of
                        None \<Rightarrow> Inl (KeyError ''id'')
                      | Some i \<Rightarrow> Inr i)) (\<lambda>message_id.
        returnM [(''success'', PBool True),
                 (''message_id'', PStr message_id),
                 (''recipient'', PStr recipient)])))))
       (\<lambda>e. returnM (failure x e))"

section \<open>The workflow (agent_backup.py, SubmissionAgent)\<close>

record AgentState =
  user_input :: "(string \<times> string) list"
  validation_result :: pydict
  doc_creation_result :: pydict
  docx_export_result :: pydict
  email_result :: pydict
  error_message :: string
  retry_count :: int
  success :: bool
  final_message :: string

text \<open>
  The constructor, which reads the environment and builds the tools, is not modelled. As
  it is written it passes the recipient to \<^verbatim>\<open>SendEmailTool\<close>, whose constructor
  takes the API manager alone, and no module of the repository imports this one. The
  methods are modelled as they are written, on an agent whose tools are the three of
  \<^verbatim>\<open>tools.py\<close>. Of the configuration only \<^verbatim>\<open>drive_folder_id\<close> reaches the
  stages; it is the parameter \<open>folder\<close>.

  The nodes. Each \<^verbatim>\<open>except Exception\<close> assigns the keys its \<^verbatim>\<open>try\<close> assigns, so the
  handler starts from the state the node was given.
\<close>

definition validate_input :: "ext \<Rightarrow> AgentState \<Rightarrow> AgentState io" where
  "validate_input x state =
     catchM
       (bindM (liftE (UserSubmission_init (email_validator x) (user_input state)))
          (\<lambda>submission.
             returnM (state\<lparr>validation_result :=
               [(''success'', PBool True),
                (''validated_data'', PStrDict (dict_of submission))]\<rparr>)))
       (\<lambda>e. returnM (state\<lparr>validation_result := failure x e,
                             error_message := ''Input validation failed: '' @ str_exn x e\<rparr>))"

text \<open>
  After a tool has answered: the result is stored; a success is logged with the key the
  log line reads (\<open>logged\<close>, none for the export), a failure sets the error message from
  \<^verbatim>\<open>result.get('error', 'Unknown error')\<close>.
\<close>

definition failed_message :: "ext \<Rightarrow> string \<Rightarrow> pydict \<Rightarrow> string" where
  "failed_message x what result =
     what @ '' failed: '' @ py_str x (get_default result ''error'' (PStr ''Unknown error''))"

definition create_document :: "ext \<Rightarrow> string option \<Rightarrow> AgentState \<Rightarrow> AgentState io" where
  "create_document x drive_folder_id state =
     catchM
       (bindM (liftE (getitem (validation_result state) ''validated_data'')) (\<lambda>validated_data.
        bindM (CreateGoogleDocTool_run x drive_folder_id validated_data) (\<lambda>result.
        bindM (liftE (getitem result ''success'')) (\<lambda>ok.
          if truthy ok
          then bindM (liftE (getitem result ''document_id''))
                 (\<lambda>logged. returnM (state\<lparr>doc_creation_result := result\<rparr>))
          else returnM (state\<lparr>doc_creation_result := result,
                               error_message := failed_message x ''Document creation'' result\<rparr>)))))
       (\<lambda>e. returnM (state\<lparr>doc_creation_result := failure x e,
                             error_message := ''Document creation failed: '' @ str_exn x e\<rparr>))"

definition export_docx :: "ext \<Rightarrow> AgentState \<Rightarrow> AgentState io" where
  "export_docx x state =
     catchM
       (bindM (liftE (getitem (doc_creation_result state) ''document_id'')) (\<lambda>document_id.
        bindM (ExportDocxTool_run x document_id) (\<lambda>result.
        bindM (liftE (getitem result ''success'')) (\<lambda>ok.
          if truthy ok
          then returnM (state\<lparr>docx_export_result := result\<rparr>)
          else returnM (state\<lparr>docx_export_result := result,
                               error_message := failed_message x ''DOCX export'' result\<rparr>)))))
       (\<lambda>e. returnM (state\<lparr>docx_export_result := failure x e,
                             error_message := ''DOCX export failed: '' @ str_exn x e\<rparr>))"

text \<open>
  The call of \<^verbatim>\<open>_send_email\<close> passes the four keywords \<^verbatim>\<open>docx_content\<close>,
  \<^verbatim>\<open>document_title\<close>, \<^verbatim>\<open>document_url\<close> and \<^verbatim>\<open>submission_name\<close> to
  \<^verbatim>\<open>SendEmailTool._run\<close>, whose signature has the fifth parameter
  \<^verbatim>\<open>recipient_email\<close> without a default: the interpreter raises \<^verbatim>\<open>TypeError\<close> before
  the body of \<^verbatim>\<open>_run\<close> starts.
\<close>

definition SendEmailTool_run_kwargs4 ::
  "ext \<Rightarrow> pyval \<Rightarrow> pyval \<Rightarrow> pyval \<Rightarrow> pyval \<Rightarrow> pydict io" where
  "SendEmailTool_run_kwargs4 x docx_content document_title document_url submission_name =
     raiseM (MissingArgument ''_run'' ''recipient_email'')"

definition send_email :: "ext \<Rightarrow> AgentState \<Rightarrow> AgentState io" where
  "send_email x state =
     catchM
       (bindM (liftE (getitem (docx_export_result state) ''docx_content'')) (\<lambda>docx_content.
        bindM (liftE (getitem (doc_creation_result state) ''title'')) (\<lambda>doc_title.
        bindM (liftE (getitem (doc_creation_result state) ''document_url'')) (\<lambda>doc_url.
        bindM (liftE (bindE (getitem (validation_result state) ''validated_data'')
                        (\<lambda>validated_data. subscript validated_data ''name''))) (\<lambda>submission_name.
        bindM (SendEmailTool_run_kwargs4 x docx_content doc_title doc_url submission_name)
          (\<lambda>result.
        bindM (liftE (getitem result ''success'')) (\<lambda>ok.
          if truthy ok
          then bindM (liftE (getitem result ''message_id''))
                 (\<lambda>logged. returnM (state\<lparr>email_result := result\<rparr>))
          else returnM (state\<lparr>email_result := result,
                               error_message := failed_message x ''Email sending'' result\<rparr>))))))))
       (\<lambda>e. returnM (state\<lparr>email_result := failure x e,
                             error_message := ''Email sending failed: '' @ str_exn x e\<rparr>))"

definition handle_error :: "AgentState \<Rightarrow> AgentState io" where
  "handle_error state =
     returnM ((if retry_count state < 3 then state\<lparr>retry_count := retry_count state + 1\<rparr>
               else state)\<lparr>success := False\<rparr>)"

text \<open>\<^verbatim>\<open>all([validation_success, doc_success, export_success, email_success])\<close>.\<close>

definition stage_success :: "pydict \<Rightarrow> bool" where
  "stage_success result = truthy (get_default result ''success'' (PBool False))"

definition all_stages_succeeded :: "AgentState \<Rightarrow> bool" where
  "all_stages_succeeded state =
     (stage_success (validation_result state) \<and> stage_success (doc_creation_result state) \<and>
      stage_success (docx_export_result state) \<and> stage_success (email_result state))"

definition success_message :: "ext \<Rightarrow> pyval \<Rightarrow> pyval \<Rightarrow> pyval \<Rightarrow> pyval \<Rightarrow> string" where
  "success_message x doc_id document_url recipient message_id =
     ''Submission processed successfully!'' @ [CHR 0x0A] @
     ''            '' @ [CHR 0x0A] @
     ''Document ID: '' @ py_str x doc_id @ [CHR 0x0A] @
     ''Document URL: '' @ py_str x document_url @ [CHR 0x0A] @
     ''Email sent to: '' @ py_str x recipient @ [CHR 0x0A] @
     ''Gmail Message ID: '' @ py_str x message_id"

definition finalize :: "ext \<Rightarrow> AgentState \<Rightarrow> AgentState io" where
  "finalize x state =
     (if all_stages_succeeded state
      then liftE
        (bindE (getitem (doc_creation_result state) ''document_id'') (\<lambda>doc_id.
         bindE (getitem (email_result state) ''message_id'') (\<lambda>message_id.
         bindE (getitem (email_result state) ''recipient'') (\<lambda>recipient.
         bindE (getitem (doc_creation_result state) ''document_url'') (\<lambda>document_url.
           Inr (state\<lparr>success := True,
                       final_message :=
                         success_message x doc_id document_url recipient message_id\<rparr>))))))
      else returnM (state\<lparr>success := False,
                           final_message := ''Workflow failed: '' @ error_message state\<rparr>))"

text \<open>The conditional edge functions.\<close>

definition should_continue :: "pydict \<Rightarrow> exn + string" where
  "should_continue result =
     bindE (getitem result ''success'') (\<lambda>ok. Inr (if truthy ok then ''continue'' else ''error''))"

definition should_continue_after_validation :: "AgentState \<Rightarrow> exn + string" where
  "should_continue_after_validation state = should_continue (validation_result state)"

definition should_continue_after_doc_creation :: "AgentState \<Rightarrow> exn + string" where
  "should_continue_after_doc_creation state = should_continue (doc_creation_result state)"

definition should_continue_after_export :: "AgentState \<Rightarrow> exn + string" where
  "should_continue_after_export state = should_continue (docx_export_result state)"

definition should_continue_after_email :: "AgentState \<Rightarrow> exn + string" where
  "should_continue_after_email state = should_continue (email_result state)"

text \<open>
  \<^verbatim>\<open>_build_workflow\<close>: the function of each node, and its edge. A conditional edge looks
  the answer of its function up in the mapping it was added with.
\<close>

definition conditional_edge ::
  "(AgentState \<Rightarrow> exn + string) \<Rightarrow> (string \<times> node) list \<Rightarrow> AgentState \<Rightarrow> exn + node" where
  "conditional_edge f mapping state =
     bindE (f state)
       (\<lambda>answer. case map_of mapping answer of None \<Rightarrow> Inl (KeyError answer) | Some n \<Rightarrow> Inr n)"

fun node_function :: "ext \<Rightarrow> string option \<Rightarrow> node \<Rightarrow> AgentState \<Rightarrow> AgentState io" where
  "node_function x folder Validate_input = validate_input x"
| "node_function x folder Create_document = create_document x folder"
| "node_function x folder Export_docx = export_docx x"
| "node_function x folder Send_email = send_email x"
| "node_function x folder Handle_error = handle_error"
| "node_function x folder Finalize = finalize x"
| "node_function x folder End = returnM"

fun edge :: "node \<Rightarrow> AgentState \<Rightarrow> exn + node" where
  "edge Validate_input =
     conditional_edge should_continue_after_validation
       [(''continue'', Create_document), (''error'', Handle_error)]"
| "edge Create_document =
     conditional_edge should_continue_after_doc_creation
       [(''continue'', Export_docx), (''error'', Handle_error)]"
| "edge Export_docx =
     conditional_edge should_continue_after_export
       [(''continue'', Send_email), (''error'', Handle_error)]"
| "edge Send_email =
     conditional_edge should_continue_after_email
       [(''continue'', Finalize), (''error'', Handle_error)]"
| "edge Handle_error = (\<lambda>state. Inr Finalize)"
| "edge Finalize = (\<lambda>state. Inr End)"
| "edge End = (\<lambda>state. Inr End)"

fun rank :: "node \<Rightarrow> nat" where
  "rank Validate_input = 0"
| "rank Create_document = 1"
| "rank Export_docx = 2"
| "rank Send_email = 3"
| "rank Handle_error = 4"
| "rank Finalize = 5"
| "rank End = 6"

text \<open>
  Running the compiled graph from a node: the node is entered, its function is applied,
  its edge chooses the next node, until \<open>End\<close>. An exception of a node or of an edge
  function leaves the run.
\<close>

function run_from :: "ext \<Rightarrow> string option \<Rightarrow> node \<Rightarrow> AgentState \<Rightarrow> AgentState io" where
  "run_from x folder n state w =
     (if n = End then (Inr state, w)
      else case node_function x folder n state (w\<lparr>events := events w @ [NodeEntered n]\<rparr>) of
             (Inl e, w') \<Rightarrow> (Inl e, w')
           | (Inr state', w') \<Rightarrow>
               (case edge n state' of
                  Inl e \<Rightarrow> (Inl e, w')
                | Inr n' \<Rightarrow> run_from x folder n' state' w'))"
  by pat_completeness auto
termination
proof (relation "measure (\<lambda>(x, folder, n, state, w). 6 - rank n)")
  show "wf (measure (\<lambda>(x, folder, n, state, w). 6 - rank n))"
    by simp
next
  fix x :: ext and folder :: "string option" and n n' :: node
    and state state' :: AgentState and w w' :: world and r p
  assume "n \<noteq> End" and "edge n state' = Inr n'"
  then have "rank n < rank n'"
    by (cases n)
       (auto simp: conditional_edge_def bindE_def split: sum.splits option.splits if_splits)
  moreover have "rank n' \<le> 6"
    by (cases n') simp_all
  ultimately show "((x, folder, n', state', w'), (x, folder, n, state, w))
      \<in> measure (\<lambda>(x, folder, n, state, w). 6 - rank n)"
    by simp
qed

declare run_from.simps [simp del]

text \<open>\<^verbatim>\<open>self.workflow.invoke(initial_state)\<close>: the run from the entry point.\<close>

definition invoke :: "ext \<Rightarrow> string option \<Rightarrow> AgentState \<Rightarrow> AgentState io" where
  "invoke x folder state = run_from x folder Validate_input state"

text \<open>
  \<^verbatim>\<open>process_submission(self, name, email, address)\<close>: the initial state, and the
  \<^verbatim>\<open>try\<close> block that runs the workflow and builds the report.
\<close>

definition initial_state :: "string \<Rightarrow> string \<Rightarrow> string \<Rightarrow> AgentState" where
  "initial_state n e a =
     \<lparr>user_input = [(''name'', n), (''email'', e), (''address'', a)],
      validation_result = [],
      doc_creation_result = [],
      docx_export_result = [],
      email_result = [],
      error_message = [],
      retry_count = 0,
      success = False,
      final_message = []\<rparr>"

definition report :: "AgentState \<Rightarrow> pydict" where
  "report final_state =
     [(''success'', PBool (success final_state)),
      (''message'', PStr (final_message final_state)),
      (''document_id'', get (doc_creation_result final_state) ''document_id''),
      (''document_url'', get (doc_creation_result final_state) ''document_url''),
      (''email_message_id'', get (email_result final_state) ''message_id'')]"

definition failed_report :: "ext \<Rightarrow> exn \<Rightarrow> pydict" where
  "failed_report x e =
     [(''success'', PBool False),
      (''message'', PStr (''Workflow execution failed: '' @ str_exn x e)),
      (''document_id'', PNone),
      (''document_url'', PNone),
      (''email_message_id'', PNone)]"

definition run_workflow :: "ext \<Rightarrow> string option \<Rightarrow> AgentState \<Rightarrow> pydict io" where
  "run_workflow x folder initial =
     catchM (bindM (invoke x folder initial) (\<lambda>final_state. returnM (report final_state)))
            (\<lambda>e. returnM (failed_report x e))"

definition process_submission ::
  "ext \<Rightarrow> string option \<Rightarrow> string \<Rightarrow> string \<Rightarrow> string \<Rightarrow> pydict io" where
  "process_submission x folder n e a = run_workflow x folder (initial_state n e a)"

section \<open>The entry point the callers use (adopt/agent.py)\<close>

text \<open>
  Modelled from the spec: the orchestrator and the entry point
  \<^verbatim>\<open>process_submission(name, email, address, recipient_email)\<close> of \<^verbatim>\<open>adopt/agent.py\<close>,
  the module that \<^verbatim>\<open>main.py\<close>, \<^verbatim>\<open>example_usage.py\<close>, \<^verbatim>\<open>streamlit_app.py\<close> and
  \<^verbatim>\<open>adopt/__init__.py\<close> import and that is not among the sources. The definitions follow
  the specification: the stage result and the pipeline state of its section 3, the state
  machine, the finalizing contract and the entry point contract of its section 4.3, and
  the propagation policy of its section 7. The validator is the one of \<^verbatim>\<open>tools.py\<close>.
  The three stages are parameters, as the stubs of section 8 are: each takes the
  validated input or the payload of a stage before it and returns its stage result, or
  raises an unexpected fault.
\<close>

datatype 'a StageResult = Ok 'a | Failed string

record PipelineState =
  validated :: "UserSubmission StageResult option"
  document :: "pydict StageResult option"
  exported :: "pydict StageResult option"
  sent :: "pydict StageResult option"
  retries :: nat
















section \<open>Notions the properties are stated with\<close>

text \<open>
  The shape of a stage result: a boolean under \<^verbatim>\<open>success\<close>; with \<^verbatim>\<open>True\<close> every key
  of the payload, with \<^verbatim>\<open>False\<close> a string under \<^verbatim>\<open>error\<close>.
\<close>

definition carries :: "pydict \<Rightarrow> string list \<Rightarrow> bool" where
  "carries r ks = list_all (\<lambda>k. map_of r k \<noteq> None) ks"

definition stage_result :: "string list \<Rightarrow> pydict \<Rightarrow> bool" where
  "stage_result payload r =
     (case map_of r ''success'' of
        Some (PBool True) \<Rightarrow> carries r payload
      | Some (PBool False) \<Rightarrow> (case map_of r ''error'' of Some (PStr e) \<Rightarrow> True | _ \<Rightarrow> False)
      | _ \<Rightarrow> False)"

text \<open>The calls of the export and of the mail service, and the node entries, in a journal.\<close>

fun export_call :: "event \<Rightarrow> bool" where
  "export_call (FilesExportMedia d m) = True"
| "export_call _ = False"

fun send_call :: "event \<Rightarrow> bool" where
  "send_call (MessagesSend r) = True"
| "send_call _ = False"

fun node_entry :: "event \<Rightarrow> bool" where
  "node_entry (NodeEntered n) = True"
| "node_entry _ = False"

text \<open>
  What a computation adds to the journal: \<open>emits P m\<close> says that, from every world,
  \<open>m\<close> only appends events, and only events of the kind \<open>P\<close>.
\<close>

definition emits :: "(event \<Rightarrow> bool) \<Rightarrow> 'a io \<Rightarrow> bool" where
  "emits P m = (\<forall>w. \<exists>new. events (snd (m w)) = events w @ new \<and> list_all P new)"

fun credential_event :: "event \<Rightarrow> bool" where
  "credential_event CredsRefresh = True"
| "credential_event LocalServerFlow = True"
| "credential_event ConsoleFlow = True"
| "credential_event (TokenFileWrite c) = True"
| "credential_event (Build s v) = True"
| "credential_event _ = False"

fun document_call :: "event \<Rightarrow> bool" where
  "document_call (DocumentsCreate t) = True"
| "document_call (DocumentsBatchUpdate d c) = True"
| "document_call (FilesUpdate d f) = True"
| "document_call _ = False"

text \<open>A result whose \<^verbatim>\<open>success\<close> is the boolean \<open>b\<close>.\<close>

definition flag :: "pydict \<Rightarrow> bool \<Rightarrow> bool" where
  "flag r b = (map_of r ''success'' = Some (PBool b))"

text \<open>
  The order of the stages in one run, read off the events \<open>new\<close> the run added to the
  journal: a stage is entered only after every stage before it has succeeded, and a stage
  that is not entered leaves its result as it was and makes none of its calls.
\<close>

definition stage_order :: "AgentState \<Rightarrow> AgentState \<Rightarrow> event list \<Rightarrow> bool" where
  "stage_order initial final new =
     ((NodeEntered Create_document \<in> set new \<longrightarrow> stage_success (validation_result final)) \<and>
      (NodeEntered Export_docx \<in> set new \<longrightarrow>
         stage_success (validation_result final) \<and> stage_success (doc_creation_result final)) \<and>
      (NodeEntered Send_email \<in> set new \<longrightarrow>
         stage_success (validation_result final) \<and> stage_success (doc_creation_result final) \<and>
         stage_success (docx_export_result final)) \<and>
      (NodeEntered Create_document \<notin> set new \<longrightarrow>
         doc_creation_result final = doc_creation_result initial \<and> \<not> list_ex document_call new) \<and>
      (NodeEntered Export_docx \<notin> set new \<longrightarrow>
         docx_export_result final = docx_export_result initial \<and> \<not> list_ex export_call new) \<and>
      (NodeEntered Send_email \<notin> set new \<longrightarrow>
         email_result final = email_result initial \<and> \<not> list_ex send_call new))"



section \<open>A sample environment\<close>

text \<open>
  One concrete environment, for evaluating the definitions at concrete inputs: every
  service answers, the token endpoint at the first request, an address is accepted when it has an \<^verbatim>\<open>@\<close>, credentials count
  as expired from 225 seconds before their expiry, and the text of the token file is the
  access token.
\<close>

definition sample_email_validator :: "string \<Rightarrow> string option" where
  "sample_email_validator v = (if CHR ''@'' \<in> set v then Some v else None)"

definition sample_credentials :: credentials where
  "sample_credentials = \<lparr>token = Some ''access-1'', refresh_token = Some ''refresh-1'',
                          expiry = Some 3600\<rparr>"

definition sample_ext :: ext where
  "sample_ext =
     \<lparr>email_validator = sample_email_validator,
      str_exn = (\<lambda>e. case e of KeyError k \<Rightarrow> k | ExternalError m \<Rightarrow> m | _ \<Rightarrow> ''error''),
      repr = (\<lambda>v. ''<value>''),
      isoformat = (\<lambda>t. ''2024-01-01T00:00:00''),
      creds_expired = (\<lambda>c now. case expiry c of None \<Rightarrow> False | Some t \<Rightarrow> t - 225 \<le> now),
      from_authorized_user_file =
        (\<lambda>t now. Inr \<lparr>token = Some t, refresh_token = Some ''refresh-1'', expiry = Some 3600\<rparr>),
      to_json = (\<lambda>c. case token c of None \<Rightarrow> [] | Some t \<Rightarrow> t),
      write_file = (\<lambda>h old t. Inr ()),
      refresh = (\<lambda>h c. (1, Inr (c\<lparr>token := Some ''access-2'', expiry := Some 9000\<rparr>))),
      run_local_server = (\<lambda>h. Inr sample_credentials),
      run_console = (\<lambda>h. Inr sample_credentials),
      build = (\<lambda>h service_name version c. Inr ()),
      documents_create = (\<lambda>h title. Inr [(''documentId'', ''doc-1'')]),
      documents_batchUpdate = (\<lambda>h d content. Inr ()),
      files_update = (\<lambda>h d folder. Inr ()),
      files_export_media = (\<lambda>h d m. Inr ''docx-bytes''),
      mime_message = (\<lambda>to subject body attachment filename. Inr ''raw-message''),
      messages_send = (\<lambda>h raw. Inr [(''id'', ''msg-1'')])\<rparr>"

definition sample_world :: world where
  "sample_world = \<lparr>creds_cache = None, token_file = Some ''access-1'',
                    clock = 0, events = []\<rparr>"

definition sample_state :: AgentState where
  "sample_state =
     (initial_state ''Jane Smith'' ''jane@x.com'' ''1 Oak Ave'')
       \<lparr>user_input := raw_record ''Jane Smith'' ''jane@x.com'' ''1 Oak Ave'' ''admin@co.com''\<rparr>"

text \<open>
  The submission of the sample input once validated, and a state in which all four stage
  results are successes.
\<close>

definition jane :: UserSubmission where
  "jane = \<lparr>name = ''Jane Smith'', email = ''jane@x.com'', address = ''1 Oak Ave'',
           recipient_email = ''admin@co.com''\<rparr>"


section \<open>Evaluation and basic facts\<close>

text \<open>
  The definitions by group, for evaluating a run at a concrete input with the simplifier.
\<close>

lemmas monad_defs = returnM_def raiseM_def liftE_def bindM_def catchM_def extcall_def bindE_def

lemmas credential_defs = get_credentials_def acquire_def load_token_file_def renew_def
  refresh_credentials_def oauth_flow_def save_credentials_def set_cache_def get_service_def valid_def
  has_refresh_token_def

lemmas tool_defs = UserSubmission_kwargs_def UserSubmission_init_def required_def min_length_1_def
  validate_required_fields_def validate_email_def field_errors_def dict_of_def
  timestamp_now_def doc_content_def create_doc_body_def failure_def CreateGoogleDocTool_run_def
  export_mime_type_def ExportDocxTool_run_def email_body_text_def SendEmailTool_run_def
  py_str_def of_opt_def getitem_def get_default_def get_def subscript_def

lemmas node_defs = validate_input_def failed_message_def create_document_def export_docx_def
  SendEmailTool_run_kwargs4_def send_email_def handle_error_def stage_success_def
  all_stages_succeeded_def success_message_def finalize_def should_continue_def
  should_continue_after_validation_def should_continue_after_doc_creation_def
  should_continue_after_export_def should_continue_after_email_def conditional_edge_def
  invoke_def initial_state_def report_def failed_report_def run_workflow_def
  process_submission_def


lemmas sample_defs = sample_email_validator_def sample_credentials_def sample_ext_def
  sample_world_def sample_state_def raw_record_def strip_def py_isspace_def

lemma bindE_simps: "bindE (Inl e) f = Inl e" "bindE (Inr v) f = f v"
  by (simp_all add: bindE_def)

lemma bindM_Inr:
  "bindM m f w = (Inr r, w') \<longleftrightarrow> (\<exists>v w1. m w = (Inr v, w1) \<and> f v w1 = (Inr r, w'))"
  by (auto simp: bindM_def split: prod.splits sum.splits)

lemma returnM_Inr [simp]: "returnM v w = (Inr r, w') \<longleftrightarrow> r = v \<and> w' = w"
  by (auto simp: returnM_def)

lemma set_cache_Inr [simp]: "set_cache c w = (Inr u, w') \<longleftrightarrow> w' = w\<lparr>creds_cache := Some c\<rparr>"
  by (auto simp: set_cache_def)

section \<open>The validator\<close>

lemma strip_Nil: "strip [] = []" by (simp add: strip_def)

lemma field_errors_mem: "(k, Inl err) \<in> set rs \<Longrightarrow> (k, err) \<in> set (field_errors rs)"
  by (force simp: field_errors_def)

lemma checked_text:
  "bindE (bindE (Inr v) min_length_1) validate_required_fields =
     (if strip v = [] then Inl (if v = [] then MinLength else ValueError ''Field cannot be empty'')
      else Inr (strip v))"
  by (auto simp: bindE_def min_length_1_def validate_required_fields_def strip_Nil)

lemma checked_email:
  "bindE (Inr v) (validate_email ev) =
     (case ev v of None \<Rightarrow> Inl (ValueError ''Invalid email format'') | Some n \<Rightarrow> Inr n)"
  by (simp add: bindE_def validate_email_def)

lemma validate_unfold:
  "validate ev n e a r =
     (let rn = bindE (bindE (Inr n) min_length_1) validate_required_fields;
          re = bindE (Inr e) (validate_email ev);
          ra = bindE (bindE (Inr a) min_length_1) validate_required_fields;
          rr = bindE (Inr r) (validate_email ev)
      in if isl rn \<or> isl re \<or> isl ra \<or> isl rr
         then Inl (ValidationError (field_errors
               [(''name'', rn), (''email'', re), (''address'', ra), (''recipient_email'', rr)]))
         else Inr \<lparr>name = projr rn, email = projr re, address = projr ra,
                   recipient_email = projr rr\<rparr>)"
  by (simp add: validate_def UserSubmission_init_def raw_record_def required_def Let_def
           split: sum.splits)

lemma validate_blank:
  assumes "strip n = [] \<or> strip a = []"
  shows "\<exists>errs. validate ev n e a r = Inl (ValidationError errs) \<and>
           (strip n = [] \<longrightarrow>
              (''name'', if n = [] then MinLength else ValueError ''Field cannot be empty'') \<in> set errs) \<and>
           (strip a = [] \<longrightarrow>
              (''address'', if a = [] then MinLength else ValueError ''Field cannot be empty'') \<in> set errs)"
  using assms unfolding validate_unfold Let_def checked_text checked_email
  by (auto intro!: field_errors_mem)

lemma validate_bad_email:
  assumes "ev e = None \<or> ev r = None"
  shows "\<exists>errs. validate ev n e a r = Inl (ValidationError errs) \<and>
           (ev e = None \<longrightarrow> (''email'', ValueError ''Invalid email format'') \<in> set errs) \<and>
           (ev r = None \<longrightarrow> (''recipient_email'', ValueError ''Invalid email format'') \<in> set errs)"
  using assms unfolding validate_unfold Let_def checked_text checked_email
  by (auto intro!: field_errors_mem)

lemma validate_ok:
  assumes "strip n \<noteq> []" "strip a \<noteq> []" "ev e = Some e'" "ev r = Some r'"
  shows "validate ev n e a r =
           Inr \<lparr>name = strip n, email = e', address = strip a, recipient_email = r'\<rparr>"
  using assms unfolding validate_unfold Let_def checked_text checked_email
  by simp

text \<open>
  Claim C4. For every raw record of the four inputs, validation fails with an empty-field
  error for \<^verbatim>\<open>name\<close> or \<^verbatim>\<open>address\<close> when that field is blank after trimming
  whitespace (the length constraint for the empty string, \<^verbatim>\<open>Field cannot be empty\<close>
  for whitespace only), fails with \<^verbatim>\<open>Invalid email format\<close> for \<^verbatim>\<open>email\<close> or
  \<^verbatim>\<open>recipient_email\<close> when the address does not parse, and otherwise returns the
  submission with the trimmed name and address and the normalised addresses.
\<close>

theorem validate_outcomes:
  "(strip n = [] \<or> strip a = [] \<longrightarrow>
      (\<exists>errs. validate ev n e a r = Inl (ValidationError errs) \<and>
         (strip n = [] \<longrightarrow>
            (''name'', if n = [] then MinLength else ValueError ''Field cannot be empty'') \<in> set errs) \<and>
         (strip a = [] \<longrightarrow>
            (''address'', if a = [] then MinLength else ValueError ''Field cannot be empty'') \<in> set errs))) \<and>
   (ev e = None \<or> ev r = None \<longrightarrow>
      (\<exists>errs. validate ev n e a r = Inl (ValidationError errs) \<and>
         (ev e = None \<longrightarrow> (''email'', ValueError ''Invalid email format'') \<in> set errs) \<and>
         (ev r = None \<longrightarrow> (''recipient_email'', ValueError ''Invalid email format'') \<in> set errs))) \<and>
   (strip n \<noteq> [] \<and> strip a \<noteq> [] \<and> ev e = Some e' \<and> ev r = Some r' \<longrightarrow>
      validate ev n e a r =
        Inr \<lparr>name = strip n, email = e', address = strip a, recipient_email = r'\<rparr>)"
  using validate_blank [of n a ev e r] validate_bad_email [of ev e r n a]
    validate_ok [of n a ev e e' r r']
  by blast

lemma strip_sample: "strip ''Jane Smith'' = ''Jane Smith''" "strip ''1 Oak Ave'' = ''1 Oak Ave''"
  "strip ''   '' = []"
  by (simp_all add: strip_def py_isspace_def)

theorem validate_outcomes_witness:
  "validate sample_email_validator ''Jane Smith'' ''jane@x.com'' ''1 Oak Ave'' ''admin@co.com'' =
     Inr \<lparr>name = ''Jane Smith'', email = ''jane@x.com'', address = ''1 Oak Ave'',
          recipient_email = ''admin@co.com''\<rparr> \<and>
   (\<exists>errs. validate sample_email_validator ''   '' ''not-an-email'' ''1 Oak Ave'' ''admin@co.com'' =
        Inl (ValidationError errs) \<and>
      (''name'', ValueError ''Field cannot be empty'') \<in> set errs \<and>
      (''email'', ValueError ''Invalid email format'') \<in> set errs)"
  using validate_outcomes [of "''Jane Smith''" "''1 Oak Ave''" sample_email_validator
      "''jane@x.com''" "''admin@co.com''" "''jane@x.com''" "''admin@co.com''"]
    validate_outcomes [of "''   ''" "''1 Oak Ave''" sample_email_validator
      "''not-an-email''" "''admin@co.com''" "''jane@x.com''" "''admin@co.com''"]
  by (auto simp: strip_sample sample_email_validator_def)

section \<open>The credential manager\<close>

lemma acquire_caches:
  "acquire x now w = (Inr c, w') \<Longrightarrow> creds_cache w' = Some c"
  by (auto simp: acquire_def bindM_Inr)

lemma get_credentials_caches:
  "get_credentials x w = (Inr c, w') \<Longrightarrow> creds_cache w' = Some c"
  by (auto simp: get_credentials_def split: option.splits if_splits dest: acquire_caches)

lemma get_credentials_hit:
  "creds_cache w = Some c \<Longrightarrow> valid x c (clock w) \<Longrightarrow> get_credentials x w = (Inr c, w)"
  by (simp add: get_credentials_def)

text \<open>
  Claim C6. When a call of \<^verbatim>\<open>get_credentials\<close> has returned a credential, and that
  credential is valid (\<^verbatim>\<open>creds.valid\<close>, as the library judges it) at the time \<open>t\<close> of
  the next call, the next call returns the same credential and leaves the world as it is:
  no event is added to the journal (no network call, no write) and the token file is
  unchanged.
\<close>

theorem get_credentials_twice:
  assumes "get_credentials x w = (Inr c, w')" and "valid x c t"
  shows "get_credentials x (w'\<lparr>clock := t\<rparr>) = (Inr c, w'\<lparr>clock := t\<rparr>) \<and>
         events (snd (get_credentials x (w'\<lparr>clock := t\<rparr>))) = events w' \<and>
         token_file (snd (get_credentials x (w'\<lparr>clock := t\<rparr>))) = token_file w'"
proof -
  have "creds_cache (w'\<lparr>clock := t\<rparr>) = Some c"
    using assms(1) by (simp add: get_credentials_caches)
  moreover have "valid x c (clock (w'\<lparr>clock := t\<rparr>))"
    using assms(2) by simp
  ultimately have "get_credentials x (w'\<lparr>clock := t\<rparr>) = (Inr c, w'\<lparr>clock := t\<rparr>)"
    by (rule get_credentials_hit)
  then show ?thesis by simp
qed

lemma sample_first_call:
  "get_credentials sample_ext sample_world =
     (Inr sample_credentials, sample_world\<lparr>creds_cache := Some sample_credentials\<rparr>)"
  by (simp add: monad_defs credential_defs sample_defs)

theorem get_credentials_twice_witness:
  "get_credentials sample_ext sample_world =
     (Inr sample_credentials, sample_world\<lparr>creds_cache := Some sample_credentials\<rparr>) \<and>
   valid sample_ext sample_credentials 60 \<and>
   get_credentials sample_ext (sample_world\<lparr>creds_cache := Some sample_credentials, clock := 60\<rparr>) =
     (Inr sample_credentials, sample_world\<lparr>creds_cache := Some sample_credentials, clock := 60\<rparr>) \<and>
   events (snd (get_credentials sample_ext
      (sample_world\<lparr>creds_cache := Some sample_credentials, clock := 60\<rparr>))) = []"
proof -
  have v: "valid sample_ext sample_credentials 60"
    by (simp add: valid_def sample_ext_def sample_credentials_def)
  show ?thesis
    using get_credentials_twice [OF sample_first_call v] sample_first_call v
    by (simp add: sample_world_def)
qed





section \<open>What the stages add to the journal\<close>

lemma emitsI:
  "(\<And>w. \<exists>new. events (snd (m w)) = events w @ new \<and> list_all P new) \<Longrightarrow> emits P m"
  by (simp add: emits_def)

lemma emitsD:
  "emits P m \<Longrightarrow> \<exists>new. events (snd (m w)) = events w @ new \<and> list_all P new"
  by (simp add: emits_def)

lemma emits_returnM [intro!]: "emits P (returnM v)"
  by (simp add: emits_def returnM_def)

lemma emits_raiseM [intro!]: "emits P (raiseM e)"
  by (simp add: emits_def raiseM_def)

lemma emits_liftE [intro!]: "emits P (liftE r)"
  by (simp add: emits_def liftE_def)

lemma emits_bindM [intro!]:
  assumes "emits P m" and "\<And>v. emits P (f v)"
  shows "emits P (bindM m f)"
proof (rule emitsI)
  fix w
  obtain r w1 where m: "m w = (r, w1)" by (cases "m w")
  from emitsD [OF assms(1), of w] m obtain n1 where
    n1: "events w1 = events w @ n1" "list_all P n1" by auto
  show "\<exists>new. events (snd (bindM m f w)) = events w @ new \<and> list_all P new"
  proof (cases r)
    case (Inl e)
    with m n1 show ?thesis by (auto simp: bindM_def)
  next
    case (Inr v)
    from emitsD [OF assms(2), of v w1] obtain n2 where
      "events (snd (f v w1)) = events w1 @ n2" "list_all P n2" by auto
    with m n1 Inr show ?thesis by (auto simp: bindM_def)
  qed
qed

lemma emits_catchM [intro!]:
  assumes "emits P m" and "\<And>e. emits P (h e)"
  shows "emits P (catchM m h)"
proof (rule emitsI)
  fix w
  obtain r w1 where m: "m w = (r, w1)" by (cases "m w")
  from emitsD [OF assms(1), of w] m obtain n1 where
    n1: "events w1 = events w @ n1" "list_all P n1" by auto
  show "\<exists>new. events (snd (catchM m h w)) = events w @ new \<and> list_all P new"
  proof (cases r)
    case (Inr v)
    with m n1 show ?thesis by (auto simp: catchM_def)
  next
    case (Inl e)
    from emitsD [OF assms(2), of e w1] obtain n2 where
      "events (snd (h e w1)) = events w1 @ n2" "list_all P n2" by auto
    with m n1 Inl show ?thesis by (auto simp: catchM_def)
  qed
qed

lemma emits_extcall [intro!]: "P ev \<Longrightarrow> emits P (extcall ev answer)"
  by (simp add: emits_def extcall_def)

lemma emits_load_token_file [intro!]: "emits P (load_token_file x)"
  by (simp add: emits_def load_token_file_def split: option.splits sum.splits)

lemma emits_set_cache [intro!]: "emits P (set_cache c)"
  by (simp add: emits_def set_cache_def)

lemma emits_timestamp_now [intro!]: "emits P (timestamp_now x)"
  by (simp add: emits_def timestamp_now_def)

lemma emits_refresh_credentials [intro!]:
  "P CredsRefresh \<Longrightarrow> emits P (refresh_credentials x c)"
  by (simp add: emits_def refresh_credentials_def list_all_iff split: prod.splits)

lemma emits_save_credentials [intro!]:
  "P (TokenFileWrite (to_json x c)) \<Longrightarrow> emits P (save_credentials x c)"
  by (simp add: emits_def save_credentials_def split: sum.splits prod.splits)

lemma emits_mono: "emits P m \<Longrightarrow> (\<And>e. P e \<Longrightarrow> Q e) \<Longrightarrow> emits Q m"
  unfolding emits_def list_all_iff by metis

lemma emits_oauth_flow: "emits credential_event (oauth_flow x)"
  unfolding oauth_flow_def by (intro emits_catchM emits_extcall) simp_all

lemma emits_renew: "emits credential_event (renew x creds now)"
  unfolding renew_def
  by (auto intro!: emits_oauth_flow split: option.splits)

lemma emits_acquire: "emits credential_event (acquire x now)"
  unfolding acquire_def
  by (auto intro!: emits_renew split: option.splits)

lemma emits_get_credentials: "emits credential_event (get_credentials x)"
proof (rule emitsI)
  fix w
  show "\<exists>new. events (snd (get_credentials x w)) = events w @ new \<and> list_all credential_event new"
    using emitsD [OF emits_acquire, of x "clock w" w]
    by (auto simp: get_credentials_def split: option.splits)
qed

lemma emits_get_service: "emits credential_event (get_service x s v)"
  unfolding get_service_def
  by (intro emits_bindM emits_get_credentials emits_extcall) simp

lemma emits_create_doc_body:
  "emits (\<lambda>e. credential_event e \<or> document_call e) (create_doc_body x folder sub)"
  unfolding create_doc_body_def Let_def
  by (auto intro!: emits_mono [OF emits_get_service] split: option.splits)

lemma emits_CreateGoogleDocTool_run:
  "emits (\<lambda>e. credential_event e \<or> document_call e) (CreateGoogleDocTool_run x folder d)"
  unfolding CreateGoogleDocTool_run_def
  by (intro emits_catchM emits_bindM emits_liftE emits_create_doc_body emits_returnM)

lemma emits_ExportDocxTool_run:
  "emits (\<lambda>e. credential_event e \<or> export_call e) (ExportDocxTool_run x d)"
  unfolding ExportDocxTool_run_def
  by (auto intro!: emits_mono [OF emits_get_service])

lemma emits_SendEmailTool_run:
  "emits (\<lambda>e. credential_event e \<or> send_call e) (SendEmailTool_run x c t u n r)"
  unfolding SendEmailTool_run_def
  by (auto intro!: emits_mono [OF emits_get_service])

section \<open>The stage operations\<close>

lemma catchM_failure:
  assumes "\<And>r w'. m w = (Inr r, w') \<Longrightarrow> Q r"
  shows "\<exists>r w'. catchM m (\<lambda>e. returnM (failure x e)) w = (Inr r, w') \<and>
      ((\<exists>e. r = failure x e) \<or> Q r)"
  using assms by (cases "m w") (auto simp: catchM_def returnM_def split: sum.splits)

lemma CreateGoogleDocTool_run_shape:
  "\<exists>r w'. CreateGoogleDocTool_run x folder d w = (Inr r, w') \<and>
     ((\<exists>e. r = failure x e) \<or>
      (\<exists>i u t. r = [(''success'', PBool True), (''document_id'', i), (''document_url'', PStr u),
                 (''title'', PStr t)]))"
  unfolding CreateGoogleDocTool_run_def
  by (rule catchM_failure) (auto simp: create_doc_body_def bindM_Inr Let_def)

lemma ExportDocxTool_run_shape:
  "\<exists>r w'. ExportDocxTool_run x d w = (Inr r, w') \<and>
     ((\<exists>e. r = failure x e) \<or>
      (\<exists>c. r = [(''success'', PBool True), (''docx_content'', PBytes c),
               (''mime_type'', PStr export_mime_type)]))"
  unfolding ExportDocxTool_run_def
  by (rule catchM_failure) (auto simp: bindM_Inr)

lemma SendEmailTool_run_shape:
  "\<exists>r w'. SendEmailTool_run x c t u n rcpt w = (Inr r, w') \<and>
     ((\<exists>e. r = failure x e) \<or>
      (\<exists>i. r = [(''success'', PBool True), (''message_id'', PStr i), (''recipient'', PStr rcpt)]))"
  unfolding SendEmailTool_run_def
  by (rule catchM_failure) (auto simp: bindM_Inr)

lemma stage_result_failure: "stage_result payload (failure x e)"
  by (simp add: stage_result_def failure_def)

text \<open>
  Claim C10. Each of the three stage operations returns, for every input and in every
  world, a dictionary and never an exception. The dictionary has a boolean under
  \<^verbatim>\<open>success\<close>; when it is \<^verbatim>\<open>False\<close> there is a string under \<^verbatim>\<open>error\<close>, when it
  is \<^verbatim>\<open>True\<close> the payload of the stage is there: document id, URL and title; DOCX
  content and mime type; message id and recipient.
\<close>

theorem stage_operations_total:
  "(\<exists>r w'. CreateGoogleDocTool_run x folder d w = (Inr r, w') \<and>
      stage_result [''document_id'', ''document_url'', ''title''] r) \<and>
   (\<exists>r w'. ExportDocxTool_run x i w = (Inr r, w') \<and>
      stage_result [''docx_content'', ''mime_type''] r) \<and>
   (\<exists>r w'. SendEmailTool_run x c t u n rcpt w = (Inr r, w') \<and>
      stage_result [''message_id'', ''recipient''] r)"
proof (intro conjI)
  show "\<exists>r w'. CreateGoogleDocTool_run x folder d w = (Inr r, w') \<and>
      stage_result [''document_id'', ''document_url'', ''title''] r"
    using CreateGoogleDocTool_run_shape [of x folder d w]
    by (auto simp: stage_result_failure) (auto simp: stage_result_def carries_def)
  show "\<exists>r w'. ExportDocxTool_run x i w = (Inr r, w') \<and>
      stage_result [''docx_content'', ''mime_type''] r"
    using ExportDocxTool_run_shape [of x i w]
    by (auto simp: stage_result_failure) (auto simp: stage_result_def carries_def)
  show "\<exists>r w'. SendEmailTool_run x c t u n rcpt w = (Inr r, w') \<and>
      stage_result [''message_id'', ''recipient''] r"
    using SendEmailTool_run_shape [of x c t u n rcpt w]
    by (auto simp: stage_result_failure) (auto simp: stage_result_def carries_def)
qed

theorem stage_operations_total_witness:
  "(\<exists>r w'. CreateGoogleDocTool_run sample_ext None (PStrDict (dict_of jane)) sample_world = (Inr r, w') \<and>
      map_of r ''success'' = Some (PBool True) \<and>
      stage_result [''document_id'', ''document_url'', ''title''] r) \<and>
   (\<exists>r w'. ExportDocxTool_run (sample_ext\<lparr>build := \<lambda>h s v c. Inl (ExternalError ''no network'')\<rparr>)
        (PStr ''doc-1'') sample_world = (Inr r, w') \<and>
      map_of r ''success'' = Some (PBool False) \<and>
      stage_result [''docx_content'', ''mime_type''] r) \<and>
   (\<exists>r w'. SendEmailTool_run sample_ext ''docx-bytes'' ''Submission''
        ''https://docs.google.com/document/d/doc-1'' ''Jane Smith'' ''admin@co.com'' sample_world =
        (Inr r, w') \<and>
      map_of r ''success'' = Some (PBool True) \<and>
      stage_result [''message_id'', ''recipient''] r)"
proof -
  let ?x = "sample_ext\<lparr>build := \<lambda>h s v c. Inl (ExternalError ''no network'')\<rparr>"
  have a: "map_of (projr (fst (CreateGoogleDocTool_run sample_ext None (PStrDict (dict_of jane))
        sample_world))) ''success'' = Some (PBool True)"
    by (simp add: monad_defs credential_defs tool_defs sample_defs Let_def jane_def)
  have b: "map_of (projr (fst (ExportDocxTool_run ?x (PStr ''doc-1'') sample_world))) ''success'' = Some (PBool False)"
    by (simp add: monad_defs credential_defs tool_defs sample_defs Let_def)
  have c: "map_of (projr (fst (SendEmailTool_run sample_ext ''docx-bytes'' ''Submission''
        ''https://docs.google.com/document/d/doc-1'' ''Jane Smith'' ''admin@co.com'' sample_world)))
        ''success'' = Some (PBool True)"
    by (simp add: monad_defs credential_defs tool_defs sample_defs Let_def)
  show ?thesis
    using stage_operations_total [of sample_ext None "PStrDict (dict_of jane)" sample_world
        "PStr ''doc-1''" "''docx-bytes''" "''Submission''"
        "''https://docs.google.com/document/d/doc-1''" "''Jane Smith''" "''admin@co.com''"]
      stage_operations_total [of ?x None "PStrDict (dict_of jane)" sample_world
        "PStr ''doc-1''" "''docx-bytes''" "''Submission''"
        "''https://docs.google.com/document/d/doc-1''" "''Jane Smith''" "''admin@co.com''"]
      a b c
    by auto
qed

subsection \<open>The document stage on a validated submission\<close>





text \<open>
  The document stage does run the check of the schema on what it is given
  (\<^verbatim>\<open>submission = UserSubmission(**submission_data)\<close>): data the check rejects makes it
  return the failure of the check, with no call made.
\<close>

lemma rejected_input:
  assumes "UserSubmission_kwargs x d = Inl e"
  shows "CreateGoogleDocTool_run x folder d w = (Inr (failure x e), w)"
  using assms
  by (simp add: CreateGoogleDocTool_run_def catchM_def bindM_def liftE_def returnM_def)




section \<open>The workflow\<close>

lemma flag_failure [simp]: "flag (failure x e) b \<longleftrightarrow> \<not> b"
  by (auto simp: flag_def failure_def)

lemma flag_stage_success: "flag r b \<Longrightarrow> stage_success r = b"
  by (simp add: flag_def stage_success_def get_default_def)

lemma flag_getitem: "flag r b \<Longrightarrow> getitem r ''success'' = Inr (PBool b)"
  by (simp add: flag_def getitem_def)

lemma flag_should_continue:
  "flag r b \<Longrightarrow> should_continue r = Inr (if b then ''continue'' else ''error'')"
  by (simp add: should_continue_def flag_getitem bindE_def)

lemma validate_input_summary:
  "\<exists>vr em b. validate_input x s w = (Inr (s\<lparr>validation_result := vr, error_message := em\<rparr>), w) \<and>
     flag vr b"
proof (cases "UserSubmission_init (email_validator x) (user_input s)")
  case (Inl e)
  then have "validate_input x s w =
      (Inr (s\<lparr>validation_result := failure x e,
              error_message := ''Input validation failed: '' @ str_exn x e\<rparr>), w)"
    by (simp add: validate_input_def catchM_def bindM_def liftE_def returnM_def)
  then show ?thesis using flag_failure by blast
next
  case (Inr sub)
  then have "validate_input x s w =
      (Inr (s\<lparr>validation_result := [(''success'', PBool True),
                (''validated_data'', PStrDict (dict_of sub))], error_message := error_message s\<rparr>), w)"
    by (simp add: validate_input_def catchM_def bindM_def liftE_def returnM_def)
  moreover have "flag [(''success'', PBool True), (''validated_data'', PStrDict (dict_of sub))] True"
    by (simp add: flag_def)
  ultimately show ?thesis by blast
qed

lemma create_document_summary:
  "\<exists>r em b w'. create_document x folder s w =
       (Inr (s\<lparr>doc_creation_result := r, error_message := em\<rparr>), w') \<and> flag r b"
proof (cases "getitem (validation_result s) ''validated_data''")
  case (Inl e)
  then have "create_document x folder s w =
      (Inr (s\<lparr>doc_creation_result := failure x e,
              error_message := ''Document creation failed: '' @ str_exn x e\<rparr>), w)"
    by (simp add: create_document_def catchM_def bindM_def liftE_def returnM_def)
  then show ?thesis using flag_failure by blast
next
  case (Inr d)
  obtain r w' where run: "CreateGoogleDocTool_run x folder d w = (Inr r, w')"
    and shape: "(\<exists>e. r = failure x e) \<or>
      (\<exists>i u t. r = [(''success'', PBool True), (''document_id'', i), (''document_url'', PStr u),
                 (''title'', PStr t)])"
    using CreateGoogleDocTool_run_shape [of x folder d w] by blast
  from shape show ?thesis
  proof
    assume "\<exists>e. r = failure x e"
    then obtain e where r: "r = failure x e" ..
    have "create_document x folder s w =
        (Inr (s\<lparr>doc_creation_result := r,
                error_message := failed_message x ''Document creation'' r\<rparr>), w')"
      using Inr run r
      by (simp add: create_document_def catchM_def bindM_def liftE_def returnM_def
            getitem_def failure_def)
    moreover have "flag r False" using r by simp
    ultimately show ?thesis by blast
  next
    assume "\<exists>i u t. r = [(''success'', PBool True), (''document_id'', i),
        (''document_url'', PStr u), (''title'', PStr t)]"
    then obtain i u t where r: "r = [(''success'', PBool True), (''document_id'', i),
        (''document_url'', PStr u), (''title'', PStr t)]" by blast
    have "create_document x folder s w =
        (Inr (s\<lparr>doc_creation_result := r, error_message := error_message s\<rparr>), w')"
      using Inr run r
      by (simp add: create_document_def catchM_def bindM_def liftE_def returnM_def getitem_def)
    moreover have "flag r True" using r by (simp add: flag_def)
    ultimately show ?thesis by blast
  qed
qed

lemma export_docx_summary:
  "\<exists>r em b w'. export_docx x s w =
       (Inr (s\<lparr>docx_export_result := r, error_message := em\<rparr>), w') \<and> flag r b"
proof (cases "getitem (doc_creation_result s) ''document_id''")
  case (Inl e)
  then have "export_docx x s w =
      (Inr (s\<lparr>docx_export_result := failure x e,
              error_message := ''DOCX export failed: '' @ str_exn x e\<rparr>), w)"
    by (simp add: export_docx_def catchM_def bindM_def liftE_def returnM_def)
  then show ?thesis using flag_failure by blast
next
  case (Inr d)
  obtain r w' where run: "ExportDocxTool_run x d w = (Inr r, w')"
    and shape: "(\<exists>e. r = failure x e) \<or>
      (\<exists>c. r = [(''success'', PBool True), (''docx_content'', PBytes c),
               (''mime_type'', PStr export_mime_type)])"
    using ExportDocxTool_run_shape [of x d w] by blast
  from shape show ?thesis
  proof
    assume "\<exists>e. r = failure x e"
    then obtain e where r: "r = failure x e" ..
    have "export_docx x s w =
        (Inr (s\<lparr>docx_export_result := r,
                error_message := failed_message x ''DOCX export'' r\<rparr>), w')"
      using Inr run r
      by (simp add: export_docx_def catchM_def bindM_def liftE_def returnM_def
            getitem_def failure_def)
    moreover have "flag r False" using r by simp
    ultimately show ?thesis by blast
  next
    assume "\<exists>c. r = [(''success'', PBool True), (''docx_content'', PBytes c),
               (''mime_type'', PStr export_mime_type)]"
    then obtain c where r: "r = [(''success'', PBool True), (''docx_content'', PBytes c),
               (''mime_type'', PStr export_mime_type)]" by blast
    have "export_docx x s w =
        (Inr (s\<lparr>docx_export_result := r, error_message := error_message s\<rparr>), w')"
      using Inr run r
      by (simp add: export_docx_def catchM_def bindM_def liftE_def returnM_def getitem_def)
    moreover have "flag r True" using r by (simp add: flag_def)
    ultimately show ?thesis by blast
  qed
qed

lemma send_email_summary:
  "\<exists>e. send_email x s w =
       (Inr (s\<lparr>email_result := failure x e,
               error_message := ''Email sending failed: '' @ str_exn x e\<rparr>), w)"
  by (auto simp: send_email_def catchM_def bindM_def liftE_def returnM_def raiseM_def
        SendEmailTool_run_kwargs4_def split: sum.splits)

lemma emits_validate_input: "emits P (validate_input x s)"
  unfolding validate_input_def by (intro emits_catchM emits_bindM emits_liftE emits_returnM)

lemma emits_create_document:
  "emits (\<lambda>e. credential_event e \<or> document_call e) (create_document x folder s)"
  unfolding create_document_def
  by (auto intro!: emits_CreateGoogleDocTool_run)

lemma emits_export_docx:
  "emits (\<lambda>e. credential_event e \<or> export_call e) (export_docx x s)"
  unfolding export_docx_def
  by (auto intro!: emits_ExportDocxTool_run)

lemma run_from_End: "run_from x folder End s w = (Inr s, w)"
  by (simp add: run_from.simps)

lemma run_from_step:
  assumes "n \<noteq> End"
    and "node_function x folder n s (w\<lparr>events := events w @ [NodeEntered n]\<rparr>) = (Inr s', w')"
    and "edge n s' = Inr n'"
  shows "run_from x folder n s w = run_from x folder n' s' w'"
  using assms by (subst run_from.simps) simp

lemma run_from_Handle_error:
  assumes "\<not> all_stages_succeeded s"
  shows "\<exists>final w'. run_from x folder Handle_error s w = (Inr final, w') \<and>
           events w' = events w @ [NodeEntered Handle_error, NodeEntered Finalize] \<and>
           \<not> success final \<and>
           validation_result final = validation_result s \<and>
           doc_creation_result final = doc_creation_result s \<and>
           docx_export_result final = docx_export_result s \<and>
           email_result final = email_result s"
proof -
  define s1 where "s1 = (if retry_count s < 3 then s\<lparr>retry_count := retry_count s + 1\<rparr>
               else s)\<lparr>success := False\<rparr>"
  define w1 where "w1 = w\<lparr>events := events w @ [NodeEntered Handle_error]\<rparr>"
  define s2 where "s2 = s1\<lparr>success := False,
      final_message := ''Workflow failed: '' @ error_message s1\<rparr>"
  define w2 where "w2 = w1\<lparr>events := events w1 @ [NodeEntered Finalize]\<rparr>"
  have not_all: "\<not> all_stages_succeeded s1"
    using assms by (simp add: s1_def all_stages_succeeded_def)
  have "run_from x folder Handle_error s w = run_from x folder Finalize s1 w1"
    by (rule run_from_step) (simp_all add: handle_error_def returnM_def s1_def w1_def)
  also have "\<dots> = run_from x folder End s2 w2"
    using not_all
    by (intro run_from_step) (simp_all add: finalize_def returnM_def s2_def w2_def)
  also have "\<dots> = (Inr s2, w2)"
    by (rule run_from_End)
  finally have "run_from x folder Handle_error s w = (Inr s2, w2)" .
  moreover have "events w2 = events w @ [NodeEntered Handle_error, NodeEntered Finalize]"
    by (simp add: w2_def w1_def)
  moreover have "\<not> success s2" "validation_result s2 = validation_result s"
    "doc_creation_result s2 = doc_creation_result s"
    "docx_export_result s2 = docx_export_result s" "email_result s2 = email_result s"
    by (simp_all add: s2_def s1_def)
  ultimately show ?thesis by blast
qed

lemma edge_flag:
  "flag (validation_result s) b \<Longrightarrow>
     edge Validate_input s = Inr (if b then Create_document else Handle_error)"
  "flag (doc_creation_result s) b \<Longrightarrow>
     edge Create_document s = Inr (if b then Export_docx else Handle_error)"
  "flag (docx_export_result s) b \<Longrightarrow>
     edge Export_docx s = Inr (if b then Send_email else Handle_error)"
  "flag (email_result s) b \<Longrightarrow>
     edge Send_email s = Inr (if b then Finalize else Handle_error)"
  by (simp_all add: conditional_edge_def should_continue_after_validation_def
        should_continue_after_doc_creation_def should_continue_after_export_def
        should_continue_after_email_def flag_should_continue bindE_def)

lemma run_from_Send_email:
  "\<exists>final w'. run_from x folder Send_email s w = (Inr final, w') \<and>
     events w' = events w @ [NodeEntered Send_email, NodeEntered Handle_error, NodeEntered Finalize] \<and>
     \<not> success final \<and>
     validation_result final = validation_result s \<and>
     doc_creation_result final = doc_creation_result s \<and>
     docx_export_result final = docx_export_result s \<and>
     \<not> stage_success (email_result final)"
proof -
  define w1 where "w1 = w\<lparr>events := events w @ [NodeEntered Send_email]\<rparr>"
  obtain e where node: "send_email x s w1 =
       (Inr (s\<lparr>email_result := failure x e,
               error_message := ''Email sending failed: '' @ str_exn x e\<rparr>), w1)"
    using send_email_summary by blast
  define s1 where "s1 = s\<lparr>email_result := failure x e,
               error_message := ''Email sending failed: '' @ str_exn x e\<rparr>"
  have fl: "flag (email_result s1) False"
    by (simp add: s1_def)
  have step: "run_from x folder Send_email s w = run_from x folder Handle_error s1 w1"
    using node edge_flag(4) [OF fl]
    by (intro run_from_step) (simp_all add: s1_def w1_def)
  have "\<not> all_stages_succeeded s1"
    using flag_stage_success [OF fl] by (simp add: all_stages_succeeded_def)
  from run_from_Handle_error [OF this, of x folder w1] obtain final w' where
    "run_from x folder Handle_error s1 w1 = (Inr final, w')"
    "events w' = events w1 @ [NodeEntered Handle_error, NodeEntered Finalize]"
    "\<not> success final" "validation_result final = validation_result s1"
    "doc_creation_result final = doc_creation_result s1"
    "docx_export_result final = docx_export_result s1"
    "email_result final = email_result s1" by blast
  then show ?thesis
    using step flag_stage_success [OF fl] by (simp add: s1_def w1_def)
qed

lemma export_events:
  assumes "list_all (\<lambda>e. credential_event e \<or> export_call e) new"
  shows "NodeEntered n \<notin> set new" "\<not> list_ex document_call new" "\<not> list_ex send_call new"
proof -
  have "\<not> node_entry e \<and> \<not> document_call e \<and> \<not> send_call e"
    if "credential_event e \<or> export_call e" for e
    using that by (cases e) auto
  with assms show "NodeEntered n \<notin> set new" "\<not> list_ex document_call new"
      "\<not> list_ex send_call new"
    by (auto simp: list_all_iff list_ex_iff)
qed

lemma document_events:
  assumes "list_all (\<lambda>e. credential_event e \<or> document_call e) new"
  shows "NodeEntered n \<notin> set new" "\<not> list_ex export_call new" "\<not> list_ex send_call new"
proof -
  have "\<not> node_entry e \<and> \<not> export_call e \<and> \<not> send_call e"
    if "credential_event e \<or> document_call e" for e
    using that by (cases e) auto
  with assms show "NodeEntered n \<notin> set new" "\<not> list_ex export_call new"
      "\<not> list_ex send_call new"
    by (auto simp: list_all_iff list_ex_iff)
qed

lemma run_from_Export_docx:
  "\<exists>final w' new. run_from x folder Export_docx s w = (Inr final, w') \<and>
     events w' = events w @ new \<and> \<not> success final \<and>
     validation_result final = validation_result s \<and>
     doc_creation_result final = doc_creation_result s \<and>
     NodeEntered Export_docx \<in> set new \<and>
     NodeEntered Create_document \<notin> set new \<and>
     \<not> list_ex document_call new \<and> \<not> list_ex send_call new \<and>
     (NodeEntered Send_email \<in> set new \<longrightarrow> stage_success (docx_export_result final)) \<and>
     (NodeEntered Send_email \<notin> set new \<longrightarrow>
        email_result final = email_result s \<and> \<not> stage_success (docx_export_result final))"
proof -
  define w1 where "w1 = w\<lparr>events := events w @ [NodeEntered Export_docx]\<rparr>"
  obtain r em b w2 where node: "export_docx x s w1 =
       (Inr (s\<lparr>docx_export_result := r, error_message := em\<rparr>), w2)" and fl: "flag r b"
    using export_docx_summary by blast
  define s1 where "s1 = s\<lparr>docx_export_result := r, error_message := em\<rparr>"
  obtain ne where ne: "events w2 = events w1 @ ne"
    "list_all (\<lambda>e. credential_event e \<or> export_call e) ne"
    using emitsD [OF emits_export_docx, of x s w1] node by auto
  note quiet = export_events [OF ne(2)]
  have fl1: "flag (docx_export_result s1) b"
    using fl by (simp add: s1_def)
  have step: "run_from x folder Export_docx s w =
      run_from x folder (if b then Send_email else Handle_error) s1 w2"
    using node edge_flag(3) [OF fl1]
    by (intro run_from_step) (simp_all add: s1_def w1_def)
  show ?thesis
  proof (cases b)
    case True
    from run_from_Send_email [of x folder s1 w2] obtain final w' where
      "run_from x folder Send_email s1 w2 = (Inr final, w')"
      "events w' = events w2 @
         [NodeEntered Send_email, NodeEntered Handle_error, NodeEntered Finalize]"
      "\<not> success final" "validation_result final = validation_result s1"
      "doc_creation_result final = doc_creation_result s1"
      "docx_export_result final = docx_export_result s1" by blast
    then show ?thesis
      using step True ne(1) quiet flag_stage_success [OF fl1]
      by (simp add: s1_def w1_def list_ex_iff)
  next
    case False
    have "\<not> all_stages_succeeded s1"
      using flag_stage_success [OF fl1] False by (simp add: all_stages_succeeded_def)
    from run_from_Handle_error [OF this, of x folder w2] obtain final w' where
      "run_from x folder Handle_error s1 w2 = (Inr final, w')"
      "events w' = events w2 @ [NodeEntered Handle_error, NodeEntered Finalize]"
      "\<not> success final" "validation_result final = validation_result s1"
      "doc_creation_result final = doc_creation_result s1"
      "docx_export_result final = docx_export_result s1"
      "email_result final = email_result s1" by blast
    then show ?thesis
      using step False ne(1) quiet flag_stage_success [OF fl1]
      by (simp add: s1_def w1_def list_ex_iff)
  qed
qed

lemma run_from_Create_document:
  "\<exists>final w' new. run_from x folder Create_document s w = (Inr final, w') \<and>
     events w' = events w @ new \<and> \<not> success final \<and>
     validation_result final = validation_result s \<and>
     NodeEntered Create_document \<in> set new \<and>
     \<not> list_ex send_call new \<and>
     (NodeEntered Export_docx \<in> set new \<longrightarrow> stage_success (doc_creation_result final)) \<and>
     (NodeEntered Send_email \<in> set new \<longrightarrow>
        stage_success (doc_creation_result final) \<and> stage_success (docx_export_result final)) \<and>
     (NodeEntered Export_docx \<notin> set new \<longrightarrow>
        docx_export_result final = docx_export_result s \<and> \<not> list_ex export_call new \<and>
        \<not> stage_success (doc_creation_result final)) \<and>
     (NodeEntered Send_email \<notin> set new \<longrightarrow> email_result final = email_result s)"
proof -
  define w1 where "w1 = w\<lparr>events := events w @ [NodeEntered Create_document]\<rparr>"
  obtain r em b w2 where node: "create_document x folder s w1 =
       (Inr (s\<lparr>doc_creation_result := r, error_message := em\<rparr>), w2)" and fl: "flag r b"
    using create_document_summary by blast
  define s1 where "s1 = s\<lparr>doc_creation_result := r, error_message := em\<rparr>"
  obtain nc where nc: "events w2 = events w1 @ nc"
    "list_all (\<lambda>e. credential_event e \<or> document_call e) nc"
    using emitsD [OF emits_create_document, of x folder s w1] node by auto
  note quiet = document_events [OF nc(2)]
  have fl1: "flag (doc_creation_result s1) b"
    using fl by (simp add: s1_def)
  have step: "run_from x folder Create_document s w =
      run_from x folder (if b then Export_docx else Handle_error) s1 w2"
    using node edge_flag(2) [OF fl1]
    by (intro run_from_step) (simp_all add: s1_def w1_def)
  show ?thesis
  proof (cases b)
    case True
    from run_from_Export_docx [of x folder s1 w2] obtain final w' new where
      "run_from x folder Export_docx s1 w2 = (Inr final, w')"
      "events w' = events w2 @ new" "\<not> success final"
      "validation_result final = validation_result s1"
      "doc_creation_result final = doc_creation_result s1"
      "NodeEntered Create_document \<notin> set new"
      "\<not> list_ex document_call new" "\<not> list_ex send_call new"
      "NodeEntered Send_email \<in> set new \<longrightarrow> stage_success (docx_export_result final)"
      "NodeEntered Send_email \<notin> set new \<longrightarrow>
        email_result final = email_result s1 \<and> \<not> stage_success (docx_export_result final)"
      and "NodeEntered Export_docx \<in> set new"
      by blast
    then show ?thesis
      using step True nc(1) quiet flag_stage_success [OF fl1]
      by (auto simp: s1_def w1_def list_ex_iff)
  next
    case False
    have "\<not> all_stages_succeeded s1"
      using flag_stage_success [OF fl1] False by (simp add: all_stages_succeeded_def)
    from run_from_Handle_error [OF this, of x folder w2] obtain final w' where
      "run_from x folder Handle_error s1 w2 = (Inr final, w')"
      "events w' = events w2 @ [NodeEntered Handle_error, NodeEntered Finalize]"
      "\<not> success final" "validation_result final = validation_result s1"
      "doc_creation_result final = doc_creation_result s1"
      "docx_export_result final = docx_export_result s1"
      "email_result final = email_result s1" by blast
    then show ?thesis
      using step False nc(1) quiet flag_stage_success [OF fl1]
      by (simp add: s1_def w1_def list_ex_iff)
  qed
qed

lemma run_from_Validate_input:
  "\<exists>final w' new. run_from x folder Validate_input s w = (Inr final, w') \<and>
     events w' = events w @ new \<and> \<not> success final \<and> stage_order s final new"
proof -
  define w1 where "w1 = w\<lparr>events := events w @ [NodeEntered Validate_input]\<rparr>"
  obtain r em b where node: "validate_input x s w1 =
       (Inr (s\<lparr>validation_result := r, error_message := em\<rparr>), w1)" and fl: "flag r b"
    using validate_input_summary by blast
  define s1 where "s1 = s\<lparr>validation_result := r, error_message := em\<rparr>"
  have fl1: "flag (validation_result s1) b"
    using fl by (simp add: s1_def)
  have step: "run_from x folder Validate_input s w =
      run_from x folder (if b then Create_document else Handle_error) s1 w1"
    using node edge_flag(1) [OF fl1]
    by (intro run_from_step) (simp_all add: s1_def w1_def)
  show ?thesis
  proof (cases b)
    case True
    from run_from_Create_document [of x folder s1 w1] obtain final w' new where
      "run_from x folder Create_document s1 w1 = (Inr final, w')"
      "events w' = events w1 @ new" "\<not> success final"
      "validation_result final = validation_result s1"
      "NodeEntered Create_document \<in> set new"
      "\<not> list_ex send_call new"
      "NodeEntered Export_docx \<in> set new \<longrightarrow> stage_success (doc_creation_result final)"
      "NodeEntered Send_email \<in> set new \<longrightarrow>
        stage_success (doc_creation_result final) \<and> stage_success (docx_export_result final)"
      "NodeEntered Export_docx \<notin> set new \<longrightarrow>
        docx_export_result final = docx_export_result s1 \<and> \<not> list_ex export_call new \<and>
        \<not> stage_success (doc_creation_result final)"
      "NodeEntered Send_email \<notin> set new \<longrightarrow> email_result final = email_result s1"
      by blast
    then show ?thesis
      using step True flag_stage_success [OF fl1]
      by (auto simp: s1_def w1_def list_ex_iff stage_order_def)
  next
    case False
    have "\<not> all_stages_succeeded s1"
      using flag_stage_success [OF fl1] False by (simp add: all_stages_succeeded_def)
    from run_from_Handle_error [OF this, of x folder w1] obtain final w' where
      "run_from x folder Handle_error s1 w1 = (Inr final, w')"
      "events w' = events w1 @ [NodeEntered Handle_error, NodeEntered Finalize]"
      "\<not> success final" "validation_result final = validation_result s1"
      "doc_creation_result final = doc_creation_result s1"
      "docx_export_result final = docx_export_result s1"
      "email_result final = email_result s1" by blast
    then show ?thesis
      using step False flag_stage_success [OF fl1]
      by (simp add: s1_def w1_def list_ex_iff stage_order_def)
  qed
qed

text \<open>
  Claim C2. Every run of the workflow returns a final state. If the result of the
  document stage recorded in it is not a success, the run has entered neither the export
  node nor the email node, their results are the ones the run started with, no call of
  the export or of the mail service was made, and the success flag is false. More
  generally (\<open>stage_order\<close>) a stage is entered only when every stage before it has
  succeeded, and the result of a stage that was not entered is never computed.
\<close>

theorem short_circuit:
  "\<exists>final w' new. invoke x folder s w = (Inr final, w') \<and> events w' = events w @ new \<and>
     stage_order s final new \<and>
     (\<not> stage_success (doc_creation_result final) \<longrightarrow>
        NodeEntered Export_docx \<notin> set new \<and> NodeEntered Send_email \<notin> set new \<and>
        docx_export_result final = docx_export_result s \<and>
        email_result final = email_result s \<and>
        \<not> list_ex export_call new \<and> \<not> list_ex send_call new \<and>
        \<not> success final)"
proof -
  obtain final w' new where run: "run_from x folder Validate_input s w = (Inr final, w')"
    "events w' = events w @ new" "\<not> success final" "stage_order s final new"
    using run_from_Validate_input by blast
  have "NodeEntered Export_docx \<notin> set new \<and> NodeEntered Send_email \<notin> set new \<and>
        docx_export_result final = docx_export_result s \<and>
        email_result final = email_result s \<and>
        \<not> list_ex export_call new \<and> \<not> list_ex send_call new \<and>
        \<not> success final"
    if "\<not> stage_success (doc_creation_result final)"
    using that run(3,4) unfolding stage_order_def by blast
  with run show ?thesis
    unfolding invoke_def by blast
qed

lemma invoke_create_fails:
  "invoke (sample_ext\<lparr>documents_create := \<lambda>h t. Inl (ExternalError ''quota exceeded'')\<rparr>)
         None sample_state sample_world =
   (Inr (sample_state
      \<lparr>validation_result :=
         [(''success'', PBool True),
          (''validated_data'', PStrDict (raw_record ''Jane Smith'' ''jane@x.com'' ''1 Oak Ave''
               ''admin@co.com''))],
       doc_creation_result := [(''success'', PBool False), (''error'', PStr ''quota exceeded'')],
       error_message := ''Document creation failed: quota exceeded'',
       retry_count := 1,
       final_message := ''Workflow failed: Document creation failed: quota exceeded''\<rparr>),
    sample_world
      \<lparr>creds_cache := Some sample_credentials,
       events := [NodeEntered Validate_input, NodeEntered Create_document, Build ''docs'' ''v1'',
                  DocumentsCreate ''Submission - Jane Smith - 2024-01-01T00:00:00'',
                  NodeEntered Handle_error, NodeEntered Finalize]\<rparr>)"
  by (simp add: run_from.simps monad_defs credential_defs tool_defs node_defs sample_defs Let_def)

theorem short_circuit_witness:
  "\<exists>final w' new.
     invoke (sample_ext\<lparr>documents_create := \<lambda>h t. Inl (ExternalError ''quota exceeded'')\<rparr>)
       None sample_state sample_world = (Inr final, w') \<and>
     events w' = events sample_world @ new \<and>
     \<not> stage_success (doc_creation_result final) \<and>
     NodeEntered Create_document \<in> set new \<and>
     NodeEntered Export_docx \<notin> set new \<and> NodeEntered Send_email \<notin> set new \<and>
     docx_export_result final = [] \<and> email_result final = [] \<and> \<not> success final"
proof -
  let ?x = "sample_ext\<lparr>documents_create := \<lambda>h t. Inl (ExternalError ''quota exceeded'')\<rparr>"
  obtain final w' new where run: "invoke ?x None sample_state sample_world = (Inr final, w')"
    "events w' = events sample_world @ new"
    and sc: "\<not> stage_success (doc_creation_result final) \<longrightarrow>
        NodeEntered Export_docx \<notin> set new \<and> NodeEntered Send_email \<notin> set new \<and>
        docx_export_result final = docx_export_result sample_state \<and>
        email_result final = email_result sample_state \<and>
        \<not> list_ex export_call new \<and> \<not> list_ex send_call new \<and>
        \<not> success final"
    using short_circuit [of ?x None sample_state sample_world] by blast
  have failed: "\<not> stage_success (doc_creation_result final)"
    and entered: "NodeEntered Create_document \<in> set new"
    using run invoke_create_fails
    by (auto simp: stage_success_def get_default_def sample_world_def)
  moreover have "docx_export_result sample_state = []" "email_result sample_state = []"
    by (simp_all add: sample_state_def initial_state_def)
  ultimately show ?thesis
    using run sc by auto
qed

subsection \<open>The finalize step and the report\<close>

text \<open>
  A run of \<^verbatim>\<open>process_submission(name, email, address)\<close>: the submission it validates
  has no \<^verbatim>\<open>recipient_email\<close>, which the schema requires, so validation fails and the
  graph goes from the validation node to the error node and the finalize node.
\<close>

lemma init_without_recipient:
  "\<exists>errs. UserSubmission_init ev [(''name'', n), (''email'', e), (''address'', a)] =
     Inl (ValidationError errs) \<and> (''recipient_email'', Missing) \<in> set errs"
  by (auto simp: UserSubmission_init_def Let_def required_def bindE_def
        intro!: field_errors_mem split: sum.splits)

lemma invoke_initial:
  "\<exists>errs. invoke x folder (initial_state n e a) w =
     (Inr ((initial_state n e a)
        \<lparr>validation_result := failure x (ValidationError errs),
         error_message := ''Input validation failed: '' @ str_exn x (ValidationError errs),
         retry_count := 1,
         final_message :=
           ''Workflow failed: Input validation failed: '' @ str_exn x (ValidationError errs)\<rparr>),
      w\<lparr>events := events w @
          [NodeEntered Validate_input, NodeEntered Handle_error, NodeEntered Finalize]\<rparr>)"
proof -
  obtain errs where "UserSubmission_init (email_validator x)
      [(''name'', n), (''email'', e), (''address'', a)] = Inl (ValidationError errs)"
    using init_without_recipient by blast
  then have "invoke x folder (initial_state n e a) w =
     (Inr ((initial_state n e a)
        \<lparr>validation_result := failure x (ValidationError errs),
         error_message := ''Input validation failed: '' @ str_exn x (ValidationError errs),
         retry_count := 1,
         final_message :=
           ''Workflow failed: Input validation failed: '' @ str_exn x (ValidationError errs)\<rparr>),
      w\<lparr>events := events w @
          [NodeEntered Validate_input, NodeEntered Handle_error, NodeEntered Finalize]\<rparr>)"
    by (simp add: run_from.simps monad_defs node_defs failure_def get_default_def get_def
          getitem_def)
  then show ?thesis ..
qed

lemma process_submission_fails:
  "\<exists>msg. process_submission x folder n e a w =
     (Inr [(''success'', PBool False), (''message'', PStr msg), (''document_id'', PNone),
           (''document_url'', PNone), (''email_message_id'', PNone)],
      w\<lparr>events := events w @
          [NodeEntered Validate_input, NodeEntered Handle_error, NodeEntered Finalize]\<rparr>)"
proof -
  obtain errs where "invoke x folder (initial_state n e a) w =
     (Inr ((initial_state n e a)
        \<lparr>validation_result := failure x (ValidationError errs),
         error_message := ''Input validation failed: '' @ str_exn x (ValidationError errs),
         retry_count := 1,
         final_message :=
           ''Workflow failed: Input validation failed: '' @ str_exn x (ValidationError errs)\<rparr>),
      w\<lparr>events := events w @
          [NodeEntered Validate_input, NodeEntered Handle_error, NodeEntered Finalize]\<rparr>)"
    using invoke_initial by blast
  then show ?thesis
    by (simp add: process_submission_def run_workflow_def catchM_def bindM_def returnM_def
          report_def initial_state_def get_def get_default_def)
qed




section \<open>The entry point the callers use\<close>








end
